theory Spec2Isabelle
  imports Main "HOL-Library.AList" "HOL-Library.Char_ord" "HOL-Library.List_Lexorder"
    "HOL-Library.Product_Lexorder"
begin

section \<open>Election scraper: constants of main.py\<close>

text \<open>
  A Python string is modelled as a \<^typ>\<open>string\<close> whose characters are code points
  below 256; the non-breaking space \<^verbatim>\<open>'\xa0'\<close> is the single character \<open>0xA0\<close>.
  Exceptions are values of the type \<open>error\<close>; a function that can raise returns
  \<open>error + 'a\<close> with \<open>Inl\<close> for the exception.
\<close>

datatype error = ValueError | TypeError | KeyError | IOError

definition NON_BREAKING_SPACE :: char where
  "NON_BREAKING_SPACE = CHR 0xA0"

definition REGULAR_SPACE :: char where
  "REGULAR_SPACE = CHR '' ''"

definition INVALID_PARTY_NAME :: string where
  "INVALID_PARTY_NAME = ''-''"

definition HEADER_ROW_INDEX :: nat where
  "HEADER_ROW_INDEX = 1"

definition MIN_CELLS_PER_ROW :: nat where
  "MIN_CELLS_PER_ROW = 3"

definition PARTY_NUMBER_CELL_INDEX :: nat where
  "PARTY_NUMBER_CELL_INDEX = 0"

definition PARTY_NAME_CELL_INDEX :: nat where
  "PARTY_NAME_CELL_INDEX = 1"

definition PARTY_VOTES_CELL_INDEX :: nat where
  "PARTY_VOTES_CELL_INDEX = 2"

definition CODE_COLUMN :: string where
  "CODE_COLUMN = ''code''"

definition LOCATION_COLUMN :: string where
  "LOCATION_COLUMN = ''location''"

definition REGISTERED_COLUMN :: string where
  "REGISTERED_COLUMN = ''registered''"

definition ENVELOPES_COLUMN :: string where
  "ENVELOPES_COLUMN = ''envelopes''"

definition VALID_COLUMN :: string where
  "VALID_COLUMN = ''valid''"

definition DEFAULT_VOTES :: int where
  "DEFAULT_VOTES = 0"

definition DEFAULT_VALUE :: string where
  "DEFAULT_VALUE = ''N/A''"

section \<open>The built-in \<open>int(str)\<close>\<close>

text \<open>
  \<open>int(s)\<close> in base 10, as CPython reads a string: leading white space, an optional
  sign, decimal digits in which single underscores may separate digits, trailing
  white space, and nothing else; anything else raises \<open>ValueError\<close>. Among the
  code points below 256 the white space it skips is \<open>\t \n \v \f \r\<close>, the space,
  \<open>0x85\<close> and \<open>0xA0\<close>, and the decimal digits are \<open>0\<close> to \<open>9\<close>. A literal of more
  than \<open>int_max_str_digits\<close> digits raises \<open>ValueError\<close> as well (the default limit
  of the interpreter).
\<close>

definition int_max_str_digits :: nat where
  "int_max_str_digits = 4300"

definition py_isspace :: "char \<Rightarrow> bool" where
  "py_isspace c \<longleftrightarrow> (of_char c :: nat) \<in> {9, 10, 11, 12, 13, 32, 133, 160}"

definition is_digit :: "char \<Rightarrow> bool" where
  "is_digit c \<longleftrightarrow> 48 \<le> (of_char c :: nat) \<and> (of_char c :: nat) \<le> 57"

definition digit_value :: "char \<Rightarrow> int" where
  "digit_value c = int (of_char c) - 48"

fun valid_digits :: "string \<Rightarrow> bool" where
  "valid_digits [] = False"
| "valid_digits [c] = is_digit c"
| "valid_digits (c # d # cs) =
     (is_digit c \<and> (if d = CHR ''_'' then valid_digits cs else valid_digits (d # cs)))"

definition digits_value :: "string \<Rightarrow> int" where
  "digits_value body =
     foldl (\<lambda>acc c. if c = CHR ''_'' then acc else 10 * acc + digit_value c) 0 body"

definition in_literal :: "char \<Rightarrow> bool" where
  "in_literal c \<longleftrightarrow> is_digit c \<or> c = CHR ''_''"

definition py_int :: "string \<Rightarrow> error + int" where
  "py_int s =
     (let s1 = dropWhile py_isspace s;
          negative = (case s1 of [] \<Rightarrow> False | c # _ \<Rightarrow> c = CHR ''-'');
          s2 = (case s1 of [] \<Rightarrow> []
                | c # r \<Rightarrow> if c = CHR ''+'' \<or> c = CHR ''-'' then r else s1);
          body = takeWhile in_literal s2;
          rest = dropWhile in_literal s2
      in if valid_digits body \<and> list_all py_isspace rest
            \<and> length (filter is_digit body) \<le> int_max_str_digits
         then Inr (if negative then - digits_value body else digits_value body)
         else Inl ValueError)"

section \<open>Text normaliser: \<open>clean_number\<close>\<close>

text \<open>
  \<open>text.replace(c, '')\<close> for a one-character \<open>c\<close> removes every occurrence of it.
\<close>

definition replace_with_empty :: "char \<Rightarrow> string \<Rightarrow> string" where
  "replace_with_empty c text = filter (\<lambda>x. x \<noteq> c) text"

text \<open>
  \<open>clean_number\<close>: the argument is \<open>None\<close> or a string. The \<open>try\<close> block catches
  \<open>ValueError\<close> and \<open>TypeError\<close>; any other exception would leave the function.
\<close>

definition clean_number :: "string option \<Rightarrow> error + int" where
  "clean_number text =
     (case text of
        None \<Rightarrow> Inr DEFAULT_VOTES
      | Some t \<Rightarrow>
          if t = [] then Inr DEFAULT_VOTES
          else
            (let cleaned_text =
                   replace_with_empty REGULAR_SPACE (replace_with_empty NON_BREAKING_SPACE t)
             in case py_int cleaned_text of
                  Inr number \<Rightarrow> Inr number
                | Inl e \<Rightarrow> if e = ValueError \<or> e = TypeError then Inr DEFAULT_VOTES else Inl e))"

section \<open>Documents and municipality records\<close>

text \<open>
  A parsed document is modelled by what it answers to the queries the program makes.
  \<open>select(MAIN_TABLE_SELECTOR)\<close> gives the rows of the main table; for each row,
  \<open>select_one(MUNICIPALITY_CODE_SELECTOR)\<close> gives no element or an anchor with its
  \<open>href\<close> attribute (possibly missing) and its stripped text, and
  \<open>select_one(MUNICIPALITY_NAME_SELECTOR)\<close> gives no element or the stripped text of
  the name cell. The three summary selectors give no element or the text of the
  cell. \<open>select(PARTY_RESULTS_CONTAINER_SELECTOR)\<close> gives the containers; for each,
  \<open>find('table')\<close> gives no table or its \<open>tr\<close> rows, each row being the stripped
  texts of its \<open>td\<close> cells. A document or element object is always true in a
  condition; only \<open>None\<close> is false.
\<close>

record anchor =
  href :: "string option"
  anchor_text :: string

record table_row =
  link_element :: "anchor option"
  name_element :: "string option"

record soup =
  table_rows :: "table_row list"
  registered_element :: "string option"
  envelopes_element :: "string option"
  valid_votes_element :: "string option"
  result_tables :: "string list list option list"

text \<open>
  The value stored for a party: the dictionary with the keys \<open>nazev\<close> and \<open>hlasy\<close>.
  A dictionary from party numbers keeps insertion order: an association list, a new
  key appended, an existing key updated in place (\<open>AList.update\<close>), a key looked
  up with \<open>map_of\<close>. The dictionaries the program builds have each key once.
\<close>

record party_info =
  nazev :: string
  hlasy :: int

type_synonym parties_dict = "(string \<times> party_info) list"

text \<open>
  A municipality dictionary; each key is present (\<open>Some\<close>) or absent. The dictionary
  returned by \<open>scrape_one_place_details\<close> is of the same type, with the four detail
  keys present.
\<close>

record municipality =
  code :: "string option"
  location :: "string option"
  link :: "string option"
  registered :: "int option"
  envelopes :: "int option"
  valid :: "int option"
  parties :: "parties_dict option"

definition dict_update :: "municipality \<Rightarrow> municipality \<Rightarrow> municipality" where
  "dict_update m d =
     \<lparr> code = (case code d of None \<Rightarrow> code m | Some v \<Rightarrow> Some v),
       location = (case location d of None \<Rightarrow> location m | Some v \<Rightarrow> Some v),
       link = (case link d of None \<Rightarrow> link m | Some v \<Rightarrow> Some v),
       registered = (case registered d of None \<Rightarrow> registered m | Some v \<Rightarrow> Some v),
       envelopes = (case envelopes d of None \<Rightarrow> envelopes m | Some v \<Rightarrow> Some v),
       valid = (case valid d of None \<Rightarrow> valid m | Some v \<Rightarrow> Some v),
       parties = (case parties d of None \<Rightarrow> parties m | Some v \<Rightarrow> Some v) \<rparr>"

section \<open>The table written by the exporter\<close>

datatype cell = CStr string | CInt int | NaN

type_synonym csv_row = "(string \<times> cell) list"

record dataframe =
  columns :: "string list"
  data :: "cell list list"

section \<open>The outside world\<close>

text \<open>
  One constructor for each \<open>print\<close> of the program, in the order of the source.
\<close>

datatype message =
    MsgDownloadError
  | MsgFound nat
  | MsgExporting string
  | MsgSaved string
  | MsgWriteError
  | MsgDownloadingMain
  | MsgMainPageFailed
  | MsgGettingList
  | MsgNoMunicipalities
  | MsgStartingDetails
  | MsgDetailsDone
  | MsgProgramDone

text \<open>
  The environment: \<open>urljoin\<close> of the standard library, which returns the joined
  URL or raises (\<open>ValueError\<close> for a reference it cannot parse); \<open>request\<close>, the
  answer of the web to a request given the requests made before it (\<open>None\<close> when
  \<open>requests.get\<close> or \<open>raise_for_status\<close> raises a \<open>RequestException\<close>); and
  \<open>to_csv\<close>, the outcome of writing the table to the file: \<open>None\<close> when the file is
  written, or the exception raised (\<open>IOError\<close> when the destination cannot be
  opened or written, another exception such as \<open>ValueError\<close> for a file name the
  system refuses).

  The world records what the run does: the messages printed, the URLs requested,
  the calls of \<open>to_csv\<close> with file name and table, and the tables written with
  success.
\<close>

record env =
  urljoin :: "string \<Rightarrow> string \<Rightarrow> error + string"
  request :: "string list \<Rightarrow> string \<Rightarrow> soup option"
  to_csv :: "string \<Rightarrow> dataframe \<Rightarrow> error option"

record world =
  stdout :: "message list"
  requested :: "string list"
  to_csv_calls :: "(string \<times> dataframe) list"
  saved :: "(string \<times> dataframe) list"

definition print :: "message \<Rightarrow> world \<Rightarrow> world" where
  "print msg w = w\<lparr>stdout := stdout w @ [msg]\<rparr>"

definition get_soup_from_url :: "env \<Rightarrow> string \<Rightarrow> world \<Rightarrow> soup option \<times> world" where
  "get_soup_from_url e url w =
     (let w1 = w\<lparr>requested := requested w @ [url]\<rparr>
      in case request e (requested w) url of
           Some page \<Rightarrow> (Some page, w1)
         | None \<Rightarrow> (None, print MsgDownloadError w1))"

section \<open>Listing extractor: \<open>scrape_municipalities_list\<close>\<close>

text \<open>
  The body of the loop for one row: the list \<open>municipalities\<close> after the row, or the
  exception \<open>urljoin\<close> raises. \<open>scrape_rows\<close> is the loop, which the first exception
  leaves. The count is printed only when the loop has finished.
\<close>

definition scrape_row ::
  "env \<Rightarrow> string \<Rightarrow> municipality list \<Rightarrow> table_row \<Rightarrow> error + municipality list" where
  "scrape_row e base_url municipalities row =
     (case link_element row of
        None \<Rightarrow> Inr municipalities
      | Some a \<Rightarrow>
          (case name_element row of
             None \<Rightarrow> Inr municipalities
           | Some name \<Rightarrow>
               (case href a of
                  None \<Rightarrow> Inr municipalities
                | Some h \<Rightarrow>
                    if h \<noteq> [] \<and> anchor_text a \<noteq> [] \<and> name \<noteq> []
                    then
                      (case urljoin e base_url h of
                         Inl err \<Rightarrow> Inl err
                       | Inr full_link \<Rightarrow>
                           Inr (municipalities @
                             [\<lparr> code = Some (anchor_text a), location = Some name,
                                link = Some full_link, registered = None,
                                envelopes = None, valid = None, parties = None \<rparr>]))
                    else Inr municipalities)))"

fun scrape_rows ::
  "env \<Rightarrow> string \<Rightarrow> table_row list \<Rightarrow> municipality list \<Rightarrow> error + municipality list" where
  "scrape_rows e base_url [] municipalities = Inr municipalities"
| "scrape_rows e base_url (row # rows) municipalities =
     (case scrape_row e base_url municipalities row of
        Inl err \<Rightarrow> Inl err
      | Inr municipalities' \<Rightarrow> scrape_rows e base_url rows municipalities')"

definition scrape_municipalities_list ::
  "env \<Rightarrow> soup \<Rightarrow> string \<Rightarrow> world \<Rightarrow> (error + municipality list) \<times> world" where
  "scrape_municipalities_list e main_page_soup base_url w =
     (case scrape_rows e base_url (table_rows main_page_soup) [] of
        Inl err \<Rightarrow> (Inl err, w)
      | Inr municipalities \<Rightarrow>
          (Inr municipalities, print (MsgFound (length municipalities)) w))"

section \<open>Detail extractor: \<open>scrape_one_place_details\<close>\<close>

fun party_rows :: "string list list \<Rightarrow> parties_dict \<Rightarrow> error + parties_dict" where
  "party_rows [] ps = Inr ps"
| "party_rows (cells # rows) ps =
     (if MIN_CELLS_PER_ROW \<le> length cells then
        (let party_number = cells ! PARTY_NUMBER_CELL_INDEX;
             party_name = cells ! PARTY_NAME_CELL_INDEX;
             votes_text = cells ! PARTY_VOTES_CELL_INDEX
         in case clean_number (Some votes_text) of
              Inl err \<Rightarrow> Inl err
            | Inr votes \<Rightarrow>
                party_rows rows
                  (if party_name \<noteq> [] \<and> party_name \<noteq> INVALID_PARTY_NAME
                   then AList.update party_number \<lparr>nazev = party_name, hlasy = votes\<rparr> ps
                   else ps))
      else party_rows rows ps)"

fun party_tables ::
  "string list list option list \<Rightarrow> parties_dict \<Rightarrow> error + parties_dict" where
  "party_tables [] ps = Inr ps"
| "party_tables (None # containers) ps = party_tables containers ps"
| "party_tables (Some table # containers) ps =
     (case party_rows (drop HEADER_ROW_INDEX table) ps of
        Inl err \<Rightarrow> Inl err
      | Inr ps' \<Rightarrow> party_tables containers ps')"

definition summary_field :: "string option \<Rightarrow> error + int" where
  "summary_field element =
     (case element of None \<Rightarrow> Inr DEFAULT_VOTES | Some t \<Rightarrow> clean_number (Some t))"

definition scrape_one_place_details :: "soup option \<Rightarrow> error + municipality option" where
  "scrape_one_place_details detail_soup =
     (case detail_soup of
        None \<Rightarrow> Inr None
      | Some page \<Rightarrow>
          (case summary_field (registered_element page) of
             Inl err \<Rightarrow> Inl err
           | Inr r \<Rightarrow>
          (case summary_field (envelopes_element page) of
             Inl err \<Rightarrow> Inl err
           | Inr en \<Rightarrow>
          (case summary_field (valid_votes_element page) of
             Inl err \<Rightarrow> Inl err
           | Inr v \<Rightarrow>
          (case party_tables (result_tables page) [] of
             Inl err \<Rightarrow> Inl err
           | Inr ps \<Rightarrow>
               Inr (Some \<lparr> code = None, location = None, link = None,
                           registered = Some r, envelopes = Some en, valid = Some v,
                           parties = Some ps \<rparr>))))))"

section \<open>Flattener and exporter: \<open>export_to_csv\<close>\<close>

definition base_columns :: "string list" where
  "base_columns =
     [CODE_COLUMN, LOCATION_COLUMN, REGISTERED_COLUMN, ENVELOPES_COLUMN, VALID_COLUMN]"

text \<open>Step 1: the dictionary \<open>all_parties\<close>, party number to party name.\<close>

fun collect_parties ::
  "parties_dict \<Rightarrow> (string \<times> string) list \<Rightarrow> (string \<times> string) list" where
  "collect_parties [] all_parties = all_parties"
| "collect_parties ((party_number, info) # items) all_parties =
     collect_parties items
       (if party_number \<notin> fst ` set all_parties
        then AList.update party_number (nazev info) all_parties
        else all_parties)"

fun all_parties ::
  "municipality list \<Rightarrow> (string \<times> string) list \<Rightarrow> (string \<times> string) list" where
  "all_parties [] acc = acc"
| "all_parties (m # municipalities_data) acc =
     all_parties municipalities_data
       (case parties m of
          None \<Rightarrow> acc
        | Some ps \<Rightarrow> if ps \<noteq> [] then collect_parties ps acc else acc)"

text \<open>
  Step 2: the list of pairs \<open>(int(party_number_text), (party_number_text, party_name))\<close>,
  built in the order of the dictionary (the first \<open>int\<close> that fails raises), sorted
  as Python sorts tuples (component by component, strings by code points), and
  stripped of the number again.
\<close>

fun temp_list_to_sort ::
  "(string \<times> string) list \<Rightarrow> error + (int \<times> string \<times> string) list" where
  "temp_list_to_sort [] = Inr []"
| "temp_list_to_sort ((party_number_text, party_name) # items) =
     (case py_int party_number_text of
        Inl err \<Rightarrow> Inl err
      | Inr number \<Rightarrow>
          (case temp_list_to_sort items of
             Inl err \<Rightarrow> Inl err
           | Inr temp \<Rightarrow> Inr ((number, (party_number_text, party_name)) # temp)))"

definition sorted_parties :: "municipality list \<Rightarrow> error + (string \<times> string) list" where
  "sorted_parties municipalities_data =
     (case temp_list_to_sort (all_parties municipalities_data []) of
        Inl err \<Rightarrow> Inl err
      | Inr temp \<Rightarrow> Inr (map snd (sort temp)))"

text \<open>
  Step 3: one dictionary \<open>csv_row\<close> for each municipality.
  \<open>dict_get\<close> is \<open>municipality.get(column, DEFAULT_VALUE)\<close> for a column name;
  \<open>party_votes\<close> is the value of \<open>votes\<close> at the end of the inner loop body.
\<close>

definition dict_get :: "municipality \<Rightarrow> string \<Rightarrow> cell" where
  "dict_get m column =
     (if column = CODE_COLUMN then
        (case code m of None \<Rightarrow> CStr DEFAULT_VALUE | Some v \<Rightarrow> CStr v)
      else if column = LOCATION_COLUMN then
        (case location m of None \<Rightarrow> CStr DEFAULT_VALUE | Some v \<Rightarrow> CStr v)
      else if column = REGISTERED_COLUMN then
        (case registered m of None \<Rightarrow> CStr DEFAULT_VALUE | Some v \<Rightarrow> CInt v)
      else if column = ENVELOPES_COLUMN then
        (case envelopes m of None \<Rightarrow> CStr DEFAULT_VALUE | Some v \<Rightarrow> CInt v)
      else if column = VALID_COLUMN then
        (case valid m of None \<Rightarrow> CStr DEFAULT_VALUE | Some v \<Rightarrow> CInt v)
      else if column = ''link'' then
        (case link m of None \<Rightarrow> CStr DEFAULT_VALUE | Some v \<Rightarrow> CStr v)
      else CStr DEFAULT_VALUE)"

definition party_votes :: "municipality \<Rightarrow> string \<Rightarrow> int" where
  "party_votes m party_number =
     (case parties m of
        None \<Rightarrow> DEFAULT_VOTES
      | Some ps \<Rightarrow>
          if ps \<noteq> [] then
            (case map_of ps party_number of
               None \<Rightarrow> DEFAULT_VOTES
             | Some info \<Rightarrow> hlasy info)
          else DEFAULT_VOTES)"

definition csv_row_of :: "(string \<times> string) list \<Rightarrow> municipality \<Rightarrow> csv_row" where
  "csv_row_of sp m =
     foldl (\<lambda>row (party_number, party_name).
              AList.update party_name (CInt (party_votes m party_number)) row)
       (foldl (\<lambda>row column. AList.update column (dict_get m column) row) [] base_columns)
       sp"

definition csv_data :: "(string \<times> string) list \<Rightarrow> municipality list \<Rightarrow> csv_row list" where
  "csv_data sp municipalities_data = map (csv_row_of sp) municipalities_data"

text \<open>
  Step 4, the table library. \<open>DataFrame\<close> of a list of dictionaries: the columns
  are the keys in the order in which they are first seen, a missing value is
  \<open>NaN\<close>. \<open>getitem\<close> is \<open>dataframe[labels]\<close>: it raises \<open>KeyError\<close> when a label is
  not a column, and otherwise gives the columns named, in the order of the labels.
\<close>

definition add_key :: "string list \<Rightarrow> string \<Rightarrow> string list" where
  "add_key acc k = (if k \<in> set acc then acc else acc @ [k])"

definition first_seen :: "string list \<Rightarrow> string list" where
  "first_seen keys = foldl add_key [] keys"

definition DataFrame :: "csv_row list \<Rightarrow> dataframe" where
  "DataFrame rows =
     (let cols = first_seen (concat (map (map fst) rows))
      in \<lparr> columns = cols,
           data = map (\<lambda>row. map (\<lambda>c. case map_of row c of None \<Rightarrow> NaN | Some v \<Rightarrow> v) cols)
                    rows \<rparr>)"

definition getitem :: "dataframe \<Rightarrow> string list \<Rightarrow> error + dataframe" where
  "getitem df labels =
     (if list_all (\<lambda>l. l \<in> set (columns df)) labels
      then Inr \<lparr> columns = labels,
                 data = map (\<lambda>row. map (\<lambda>l. case map_of (zip (columns df) row) l of
                                               None \<Rightarrow> NaN | Some v \<Rightarrow> v) labels)
                          (data df) \<rparr>
      else Inl KeyError)"

definition final_dataframe :: "municipality list \<Rightarrow> error + dataframe" where
  "final_dataframe municipalities_data =
     (case sorted_parties municipalities_data of
        Inl err \<Rightarrow> Inl err
      | Inr sp \<Rightarrow>
          getitem (DataFrame (csv_data sp municipalities_data))
            (base_columns @ map snd sp))"

text \<open>
  \<open>export_to_csv\<close>: the result is the exception that leaves the function, if any,
  and the world after it. An \<open>IOError\<close> of \<open>to_csv\<close> is caught and reported; any
  other exception of \<open>to_csv\<close> leaves the function.
\<close>

definition export_to_csv ::
  "env \<Rightarrow> municipality list \<Rightarrow> string \<Rightarrow> world \<Rightarrow> error option \<times> world" where
  "export_to_csv e municipalities_data output_filename w =
     (let w1 = print (MsgExporting output_filename) w
      in case final_dataframe municipalities_data of
           Inl err \<Rightarrow> (Some err, w1)
         | Inr df \<Rightarrow>
             (let w2 = w1\<lparr>to_csv_calls := to_csv_calls w1 @ [(output_filename, df)]\<rparr>
              in case to_csv e output_filename df of
                   None \<Rightarrow>
                     (None, print (MsgSaved output_filename)
                              (w2\<lparr>saved := saved w2 @ [(output_filename, df)]\<rparr>))
                 | Some err \<Rightarrow>
                     if err = IOError then (None, print MsgWriteError w2)
                     else (Some err, w2)))"

section \<open>Orchestrator: \<open>main\<close>\<close>

text \<open>
  The body of the loop over the municipalities, after the download: the record is
  updated when the page was downloaded and the details are not \<open>None\<close>.
  \<open>fetch_details\<close> is the loop; \<open>municipality['link']\<close> raises \<open>KeyError\<close> for a
  record without a link.
\<close>

definition merge_details :: "municipality \<Rightarrow> soup option \<Rightarrow> error + municipality" where
  "merge_details m detail_soup =
     (case detail_soup of
        None \<Rightarrow> Inr m
      | Some page \<Rightarrow>
          (case scrape_one_place_details (Some page) of
             Inl err \<Rightarrow> Inl err
           | Inr None \<Rightarrow> Inr m
           | Inr (Some election_details) \<Rightarrow> Inr (dict_update m election_details)))"

fun fetch_details ::
  "env \<Rightarrow> municipality list \<Rightarrow> world \<Rightarrow> (error + municipality list) \<times> world" where
  "fetch_details e [] w = (Inr [], w)"
| "fetch_details e (m # ms) w =
     (case link m of
        None \<Rightarrow> (Inl KeyError, w)
      | Some url \<Rightarrow>
          (case get_soup_from_url e url w of
             (detail_soup, w1) \<Rightarrow>
               (case merge_details m detail_soup of
                  Inl err \<Rightarrow> (Inl err, w1)
                | Inr m' \<Rightarrow>
                    (case fetch_details e ms w1 of
                       (Inl err, w2) \<Rightarrow> (Inl err, w2)
                     | (Inr ms', w2) \<Rightarrow> (Inr (m' # ms'), w2)))))"

text \<open>
  \<open>main\<close>, after the command line is parsed into \<open>url\<close> and \<open>filename\<close>. The
  result is the exception that leaves \<open>main\<close>, if any, and the world after the run.
\<close>

definition main :: "env \<Rightarrow> string \<Rightarrow> string \<Rightarrow> world \<Rightarrow> error option \<times> world" where
  "main e url filename w =
     (case get_soup_from_url e url (print MsgDownloadingMain w) of
        (None, w2) \<Rightarrow> (None, print MsgMainPageFailed w2)
      | (Some main_page_soup, w2) \<Rightarrow>
          (case scrape_municipalities_list e main_page_soup url (print MsgGettingList w2) of
             (Inl err, w4) \<Rightarrow> (Some err, w4)
           | (Inr municipalities, w4) \<Rightarrow>
               if municipalities = [] then (None, print MsgNoMunicipalities w4)
               else
                 (case fetch_details e municipalities (print MsgStartingDetails w4) of
                    (Inl err, w6) \<Rightarrow> (Some err, w6)
                  | (Inr municipalities', w6) \<Rightarrow>
                      (case export_to_csv e municipalities' filename (print MsgDetailsDone w6) of
                         (Some err, w8) \<Rightarrow> (Some err, w8)
                       | (None, w8) \<Rightarrow> (None, print MsgProgramDone w8)))))"

section \<open>Notions used to state the properties\<close>

text \<open>
  A row of the listing is complete when it has a code and link element with a
  non-empty \<open>href\<close> and a non-empty text, and a name element with a non-empty text.
  \<open>urljoin\<close> accepts a row when it returns a URL for the \<open>href\<close> of the row. A
  complete row that \<open>urljoin\<close> accepts stands for the stub \<open>stub_of\<close>.
\<close>

definition row_complete :: "table_row \<Rightarrow> bool" where
  "row_complete row =
     (case link_element row of
        None \<Rightarrow> False
      | Some a \<Rightarrow>
          (case href a of None \<Rightarrow> False | Some h \<Rightarrow> h \<noteq> [] \<and> anchor_text a \<noteq> [])
          \<and> (case name_element row of None \<Rightarrow> False | Some name \<Rightarrow> name \<noteq> []))"

definition row_code :: "table_row \<Rightarrow> string" where
  "row_code row = (case link_element row of None \<Rightarrow> [] | Some a \<Rightarrow> anchor_text a)"

definition row_href :: "table_row \<Rightarrow> string" where
  "row_href row =
     (case link_element row of
        None \<Rightarrow> []
      | Some a \<Rightarrow> (case href a of None \<Rightarrow> [] | Some h \<Rightarrow> h))"

definition row_name :: "table_row \<Rightarrow> string" where
  "row_name row = (case name_element row of None \<Rightarrow> [] | Some name \<Rightarrow> name)"

definition href_accepted :: "env \<Rightarrow> string \<Rightarrow> table_row \<Rightarrow> bool" where
  "href_accepted e base_url row =
     (case urljoin e base_url (row_href row) of Inl err \<Rightarrow> False | Inr u \<Rightarrow> True)"

definition full_link_of :: "env \<Rightarrow> string \<Rightarrow> table_row \<Rightarrow> string" where
  "full_link_of e base_url row =
     (case urljoin e base_url (row_href row) of Inl err \<Rightarrow> [] | Inr u \<Rightarrow> u)"

definition is_stub :: "municipality \<Rightarrow> bool" where
  "is_stub m \<longleftrightarrow>
     code m \<noteq> None \<and> location m \<noteq> None \<and> link m \<noteq> None \<and> registered m = None \<and>
     envelopes m = None \<and> valid m = None \<and> parties m = None"

definition stub_of :: "env \<Rightarrow> string \<Rightarrow> table_row \<Rightarrow> municipality" where
  "stub_of e base_url row =
     \<lparr> code = Some (row_code row), location = Some (row_name row),
       link = Some (full_link_of e base_url row), registered = None,
       envelopes = None, valid = None, parties = None \<rparr>"

text \<open>
  The qualifying party rows of a detail page: in every container that has a table,
  the rows after the first, with at least three cells. A name is kept when it is
  neither empty nor the sentinel. \<open>last_kept\<close> is the last qualifying row with a
  kept name that carries a given party number, and \<open>info_of\<close> the value stored
  for a row.
\<close>

definition votes_of :: "string \<Rightarrow> int" where
  "votes_of t = (case clean_number (Some t) of Inl err \<Rightarrow> 0 | Inr n \<Rightarrow> n)"

definition data_rows :: "string list list option list \<Rightarrow> string list list" where
  "data_rows containers =
     concat (map (\<lambda>container. case container of None \<Rightarrow> [] | Some table \<Rightarrow> tl table)
               containers)"

definition qualifying_rows :: "soup \<Rightarrow> string list list" where
  "qualifying_rows page =
     filter (\<lambda>cells. 3 \<le> length cells) (data_rows (result_tables page))"

definition name_kept :: "string \<Rightarrow> bool" where
  "name_kept name \<longleftrightarrow> name \<noteq> [] \<and> name \<noteq> ''-''"

definition last_kept :: "string \<Rightarrow> string list list \<Rightarrow> string list option" where
  "last_kept party_number rows =
     (case filter (\<lambda>cells. cells ! 0 = party_number \<and> name_kept (cells ! 1)) rows of
        [] \<Rightarrow> None
      | r # rs \<Rightarrow> Some (last (r # rs)))"

definition info_of :: "string list \<Rightarrow> party_info" where
  "info_of cells = \<lparr>nazev = cells ! 1, hlasy = votes_of (cells ! 2)\<rparr>"

text \<open>
  The effect of one row of a party table on the parties dictionary, and the value
  of a summary field.
\<close>

definition row_step :: "parties_dict \<Rightarrow> string list \<Rightarrow> parties_dict" where
  "row_step ps cells =
     (if 3 \<le> length cells \<and> name_kept (cells ! 1)
      then AList.update (cells ! 0) (info_of cells) ps else ps)"

definition field_value :: "string option \<Rightarrow> int" where
  "field_value element = (case element of None \<Rightarrow> 0 | Some t \<Rightarrow> votes_of t)"

text \<open>
  The party numbers of a list of records; a decimal literal, which is an optional
  sign followed by one or more decimal digits; the integer \<open>int\<close> gives a party
  number (0 where \<open>int\<close> raises); the value of a column in a row dictionary.
\<close>

definition party_ids :: "municipality list \<Rightarrow> string set" where
  "party_ids ms =
     (\<Union>m \<in> set ms. case parties m of None \<Rightarrow> {} | Some ps \<Rightarrow> fst ` set ps)"

definition int_literal :: "string \<Rightarrow> bool" where
  "int_literal s =
     (case s of
        [] \<Rightarrow> False
      | c # r \<Rightarrow>
          if c = CHR ''+'' \<or> c = CHR ''-'' then r \<noteq> [] \<and> list_all is_digit r
          else list_all is_digit s)"

definition int_of :: "string \<Rightarrow> int" where
  "int_of t = (case py_int t of Inl err \<Rightarrow> 0 | Inr n \<Rightarrow> n)"

definition lookup :: "csv_row \<Rightarrow> string \<Rightarrow> cell" where
  "lookup row c = (case map_of row c of None \<Rightarrow> NaN | Some v \<Rightarrow> v)"

text \<open>The pair the sort step builds for an entry of \<open>all_parties\<close>.\<close>

definition keyed :: "string \<times> string \<Rightarrow> int \<times> string \<times> string" where
  "keyed item = (int_of (fst item), item)"

text \<open>
  The record \<open>scrape_one_place_details\<close> returns for a parsed page, and the record of
  a municipality after the body of the download loop, given the answer to its
  request. \<open>links\<close> are the URLs the loop requests, and \<open>response\<close> is the
  answer to the request of the municipality at an index, after the requests of
  \<open>history\<close> and of the municipalities before it.
\<close>

definition details_of :: "soup \<Rightarrow> municipality" where
  "details_of page =
     \<lparr> code = None, location = None, link = None,
       registered = Some (field_value (registered_element page)),
       envelopes = Some (field_value (envelopes_element page)),
       valid = Some (field_value (valid_votes_element page)),
       parties = Some (foldl row_step [] (data_rows (result_tables page))) \<rparr>"

definition merged :: "municipality \<Rightarrow> soup option \<Rightarrow> municipality" where
  "merged m answer =
     (case answer of None \<Rightarrow> m | Some page \<Rightarrow> dict_update m (details_of page))"

definition links :: "municipality list \<Rightarrow> string list" where
  "links ms = map (\<lambda>m. case link m of None \<Rightarrow> [] | Some url \<Rightarrow> url) ms"

definition response :: "env \<Rightarrow> string list \<Rightarrow> municipality list \<Rightarrow> nat \<Rightarrow> soup option" where
  "response e history ms i = request e (history @ take i (links ms)) (links ms ! i)"

section \<open>Example inputs\<close>

text \<open>
  A detail page, an empty world, listings, environments and records, used to run
  the definitions on concrete inputs. In the environments \<open>urljoin\<close> appends the
  reference to the base, as the library does for the base \<open>"u/"\<close> and the relative
  references used here; in \<open>env_ipv6\<close> it raises \<open>ValueError\<close> for the reference
  \<open>"//["\<close>, as the library does.
\<close>

definition page0 :: soup where
  "page0 = \<lparr> table_rows = [], registered_element = Some ''1 234'', envelopes_element = None,
     valid_votes_element = Some ''x'',
     result_tables = [None, Some [[''h'', ''h'', ''h''], [''1'', ''A'', ''10''],
       [''2'', ''-'', ''5''], [''3''], [''1'', ''B'', ''7'']]] \<rparr>"

definition world0 :: world where
  "world0 = \<lparr> stdout = [], requested = [], to_csv_calls = [], saved = [] \<rparr>"

definition env0 :: env where
  "env0 = \<lparr> urljoin = (\<lambda>base h. Inr (base @ h)), request = (\<lambda>history url. None),
     to_csv = (\<lambda>name df. None) \<rparr>"

definition listing0 :: soup where
  "listing0 = \<lparr> table_rows =
      [\<lparr>link_element = None, name_element = None\<rparr>,
       \<lparr>link_element = Some \<lparr>href = Some ''ps311?obec=1'', anchor_text = ''506761''\<rparr>,
        name_element = Some ''Alfa''\<rparr>,
       \<lparr>link_element = Some \<lparr>href = None, anchor_text = ''1''\<rparr>, name_element = Some ''X''\<rparr>,
       \<lparr>link_element = Some \<lparr>href = Some ''ps311?obec=2'', anchor_text = ''589268''\<rparr>,
        name_element = Some ''Beta''\<rparr>],
     registered_element = None, envelopes_element = None, valid_votes_element = None,
     result_tables = [] \<rparr>"

definition long_id :: string where
  "long_id = replicate 4301 (CHR ''1'')"

definition m_long_id :: municipality where
  "m_long_id = \<lparr> code = Some ''A'', location = Some ''Alpha'', link = Some ''la'',
     registered = Some 10, envelopes = Some 9, valid = Some 8,
     parties = Some [(long_id, \<lparr>nazev = ''PartyX'', hlasy = 100\<rparr>)] \<rparr>"

definition listing_ipv6 :: soup where
  "listing_ipv6 = \<lparr> table_rows =
      [\<lparr>link_element = Some \<lparr>href = Some ''//['', anchor_text = ''506761''\<rparr>,
        name_element = Some ''Alfa''\<rparr>],
     registered_element = None, envelopes_element = None, valid_votes_element = None,
     result_tables = [] \<rparr>"

definition env_ipv6 :: env where
  "env_ipv6 =
     \<lparr> urljoin = (\<lambda>base h. if h = ''//['' then Inl ValueError else Inr (base @ h)),
       request = (\<lambda>history url. Some listing_ipv6), to_csv = (\<lambda>name df. None) \<rparr>"

definition m_alpha :: municipality where
  "m_alpha = \<lparr> code = Some ''A'', location = Some ''Alpha'', link = Some ''la'',
     registered = Some 10, envelopes = Some 9, valid = Some 8,
     parties = Some [(''1'', \<lparr>nazev = ''PartyX'', hlasy = 100\<rparr>),
                     (''2'', \<lparr>nazev = ''PartyY'', hlasy = 50\<rparr>)] \<rparr>"

definition m_bravo :: municipality where
  "m_bravo = \<lparr> code = Some ''B'', location = Some ''Bravo'', link = Some ''lb'',
     registered = Some 7, envelopes = Some 6, valid = Some 5,
     parties = Some [(''2'', \<lparr>nazev = ''PartyY'', hlasy = 30\<rparr>)] \<rparr>"

definition m_same_name :: municipality where
  "m_same_name = \<lparr> code = Some ''A'', location = Some ''Alpha'', link = Some ''la'',
     registered = Some 10, envelopes = Some 9, valid = Some 8,
     parties = Some [(''1'', \<lparr>nazev = ''X'', hlasy = 100\<rparr>),
                     (''2'', \<lparr>nazev = ''X'', hlasy = 50\<rparr>)] \<rparr>"

definition m_leading_zero :: municipality where
  "m_leading_zero = \<lparr> code = Some ''A'', location = Some ''Alpha'', link = Some ''la'',
     registered = Some 10, envelopes = Some 9, valid = Some 8,
     parties = Some [(''1'', \<lparr>nazev = ''PartyX'', hlasy = 100\<rparr>),
                     (''01'', \<lparr>nazev = ''PartyY'', hlasy = 50\<rparr>)] \<rparr>"

definition m_not_a_number :: municipality where
  "m_not_a_number = \<lparr> code = Some ''A'', location = Some ''Alpha'', link = Some ''la'',
     registered = Some 10, envelopes = Some 9, valid = Some 8,
     parties = Some [(''1a'', \<lparr>nazev = ''PartyX'', hlasy = 100\<rparr>)] \<rparr>"

definition listing_bad :: soup where
  "listing_bad = \<lparr> table_rows =
      [\<lparr>link_element = None, name_element = None\<rparr>,
       \<lparr>link_element = Some \<lparr>href = Some ''ps311?obec=1'', anchor_text = ''''\<rparr>,
        name_element = Some ''Alfa''\<rparr>],
     registered_element = None, envelopes_element = None, valid_votes_element = None,
     result_tables = [] \<rparr>"

definition env_bad :: env where
  "env_bad = \<lparr> urljoin = (\<lambda>base h. Inr (base @ h)), request = (\<lambda>history url. Some listing_bad),
     to_csv = (\<lambda>name df. None) \<rparr>"

definition web1 :: "string list \<Rightarrow> string \<Rightarrow> soup option" where
  "web1 history url =
     (if url = ''u/'' then Some listing0
      else if url = ''u/ps311?obec=2'' then Some page0
      else None)"

definition env1 :: env where
  "env1 = \<lparr> urljoin = (\<lambda>base h. Inr (base @ h)), request = web1, to_csv = (\<lambda>name df. None) \<rparr>"

definition env_read_only :: env where
  "env_read_only =
     \<lparr> urljoin = (\<lambda>base h. Inr (base @ h)), request = web1, to_csv = (\<lambda>name df. Some IOError) \<rparr>"

definition stub_alfa :: municipality where
  "stub_alfa = \<lparr> code = Some ''506761'', location = Some ''Alfa'',
     link = Some ''u/ps311?obec=1'', registered = None, envelopes = None, valid = None,
     parties = None \<rparr>"

definition stub_beta :: municipality where
  "stub_beta = \<lparr> code = Some ''589268'', location = Some ''Beta'',
     link = Some ''u/ps311?obec=2'', registered = None, envelopes = None, valid = None,
     parties = None \<rparr>"

definition record_beta :: municipality where
  "record_beta = \<lparr> code = Some ''589268'', location = Some ''Beta'',
     link = Some ''u/ps311?obec=2'', registered = Some 1234, envelopes = Some 0,
     valid = Some 0, parties = Some [(''1'', \<lparr>nazev = ''B'', hlasy = 7\<rparr>)] \<rparr>"

definition table1 :: dataframe where
  "table1 = \<lparr> columns = [''code'', ''location'', ''registered'', ''envelopes'', ''valid'', ''B''],
     data = [[CStr ''506761'', CStr ''Alfa'', CStr ''N/A'', CStr ''N/A'', CStr ''N/A'', CInt 0],
             [CStr ''589268'', CStr ''Beta'', CInt 1234, CInt 0, CInt 0, CInt 7]] \<rparr>"

definition page_registered :: soup where
  "page_registered = \<lparr> table_rows = [], registered_element = Some ''1 234'',
     envelopes_element = None, valid_votes_element = None,
     result_tables = [Some [[''h'', ''h'', ''h''], [''1'', ''registered'', ''7'']]] \<rparr>"

definition page_bad_id :: soup where
  "page_bad_id = \<lparr> table_rows = [], registered_element = Some ''1 234'',
     envelopes_element = None, valid_votes_element = None,
     result_tables = [Some [[''h'', ''h'', ''h''], [''1a'', ''B'', ''7'']]] \<rparr>"

definition web_with :: "soup \<Rightarrow> string list \<Rightarrow> string \<Rightarrow> soup option" where
  "web_with p history url =
     (if url = ''u/'' then Some listing0
      else if url = ''u/ps311?obec=2'' then Some p
      else None)"

definition env_with :: "soup \<Rightarrow> error option \<Rightarrow> env" where
  "env_with p outcome =
     \<lparr> urljoin = (\<lambda>base h. Inr (base @ h)), request = web_with p,
       to_csv = (\<lambda>name df. outcome) \<rparr>"

definition record_registered :: municipality where
  "record_registered = \<lparr> code = Some ''589268'', location = Some ''Beta'',
     link = Some ''u/ps311?obec=2'', registered = Some 1234, envelopes = Some 0,
     valid = Some 0, parties = Some [(''1'', \<lparr>nazev = ''registered'', hlasy = 7\<rparr>)] \<rparr>"

definition record_bad_id :: municipality where
  "record_bad_id = \<lparr> code = Some ''589268'', location = Some ''Beta'',
     link = Some ''u/ps311?obec=2'', registered = Some 1234, envelopes = Some 0,
     valid = Some 0, parties = Some [(''1a'', \<lparr>nazev = ''B'', hlasy = 7\<rparr>)] \<rparr>"

definition table_registered :: dataframe where
  "table_registered =
     \<lparr> columns = [''code'', ''location'', ''registered'', ''envelopes'', ''valid'', ''registered''],
       data = [[CStr ''506761'', CStr ''Alfa'', CInt 0, CStr ''N/A'', CStr ''N/A'', CInt 0],
               [CStr ''589268'', CStr ''Beta'', CInt 7, CInt 0, CInt 0, CInt 7]] \<rparr>"

section \<open>Properties of the text normaliser\<close>

lemma digits_value_acc_nonneg:
  "0 \<le> acc \<Longrightarrow> list_all in_literal body \<Longrightarrow>
   0 \<le> foldl (\<lambda>acc c. if c = CHR ''_'' then acc else 10 * acc + digit_value c) acc body"
proof (induction body arbitrary: acc)
  case Nil
  then show ?case by simp
next
  case (Cons c cs)
  have "c \<noteq> CHR ''_'' \<Longrightarrow> 0 \<le> digit_value c"
    using Cons.prems(2) by (simp add: in_literal_def is_digit_def digit_value_def)
  then have "0 \<le> (if c = CHR ''_'' then acc else 10 * acc + digit_value c)"
    using Cons.prems(1) by simp
  moreover have "list_all in_literal cs"
    using Cons.prems(2) by simp
  ultimately show ?case
    using Cons.IH by simp
qed

lemma digits_value_nonneg: "0 \<le> digits_value (takeWhile in_literal s)"
proof -
  have "list_all in_literal (takeWhile in_literal s)"
    by (simp add: list_all_iff) (meson set_takeWhileD)
  then show ?thesis
    unfolding digits_value_def by (rule digits_value_acc_nonneg [rotated]) simp
qed

lemma dropWhile_head_in_set: "dropWhile P s = c # r \<Longrightarrow> c \<in> set s"
  by (metis list.set_intros(1) set_dropWhileD)

lemma py_int_nonneg:
  assumes "py_int s = Inr n" and "CHR ''-'' \<notin> set s"
  shows "0 \<le> n"
proof -
  have neg: "\<not> (case dropWhile py_isspace s of [] \<Rightarrow> False | c # _ \<Rightarrow> c = CHR ''-'')"
    using assms(2) by (auto split: list.splits dest: dropWhile_head_in_set)
  show ?thesis
    using assms(1) neg digits_value_nonneg
    by (auto simp: py_int_def Let_def split: if_splits)
qed

lemma valid_digits_all_digits: "s \<noteq> [] \<Longrightarrow> list_all is_digit s \<Longrightarrow> valid_digits s"
proof (induction s rule: valid_digits.induct)
  case 1
  then show ?case by simp
next
  case (2 c)
  then show ?case by simp
next
  case (3 c d cs)
  from "3.prems" have "d \<noteq> CHR ''_''"
    by (auto simp: is_digit_def)
  with 3 show ?case by simp
qed

lemma py_int_digit_string:
  assumes "s \<noteq> []" and "list_all is_digit s" and "length s \<le> int_max_str_digits"
  shows "py_int s = Inr (digits_value s)"
proof -
  obtain c r where s: "s = c # r"
    using assms(1) by (cases s) simp_all
  have c: "is_digit c"
    using assms(2) s by simp
  then have "\<not> py_isspace c" "c \<noteq> CHR ''+''" "c \<noteq> CHR ''-''"
    by (auto simp: is_digit_def py_isspace_def)
  then have a: "dropWhile py_isspace s = s"
    "(case s of [] \<Rightarrow> False | x # _ \<Rightarrow> x = CHR ''-'') = False"
    "(case s of [] \<Rightarrow> [] | x # r \<Rightarrow> if x = CHR ''+'' \<or> x = CHR ''-'' then r else s) = s"
    by (simp_all add: s)
  have "list_all in_literal s"
    using assms(2) by (simp add: list_all_iff in_literal_def)
  then have b: "takeWhile in_literal s = s" "dropWhile in_literal s = []"
    by (simp_all add: list_all_iff)
  have d: "filter is_digit s = s"
    using assms(2) by (simp add: list_all_iff)
  show ?thesis
    using valid_digits_all_digits [OF assms(1,2)] assms(3)
    by (simp add: py_int_def Let_def a b d)
qed

lemma clean_number_cases:
  "clean_number (Some t) =
     (if t = [] then Inr DEFAULT_VOTES
      else case py_int (replace_with_empty REGULAR_SPACE (replace_with_empty NON_BREAKING_SPACE t)) of
             Inr number \<Rightarrow> Inr number | Inl e \<Rightarrow> Inr DEFAULT_VOTES)"
  by (auto simp: clean_number_def Let_def py_int_def split: sum.splits if_splits)

lemma clean_number_returns: "\<exists>n. clean_number text = Inr n"
proof (cases "text")
  case None
  then show ?thesis by (simp add: clean_number_def)
next
  case (Some t)
  then show ?thesis by (simp add: clean_number_cases split: sum.splits)
qed

text \<open>
  C2 (as amended). \<open>clean_number\<close> returns an integer for every argument and never
  raises. It returns 0 for \<open>None\<close> and for the empty string; for any other string it
  returns the value \<open>int\<close> gives to the text without its ordinary and non-breaking
  spaces, and 0 when \<open>int\<close> rejects that text. The result is not negative when the
  text contains no minus sign.
\<close>

theorem clean_number_total:
  "(\<exists>n. clean_number text = Inr n) \<and>
   clean_number None = Inr 0 \<and>
   clean_number (Some []) = Inr 0 \<and>
   (t \<noteq> [] \<longrightarrow>
      clean_number (Some t) =
        Inr (case py_int (replace_with_empty REGULAR_SPACE
                           (replace_with_empty NON_BREAKING_SPACE t)) of
               Inr number \<Rightarrow> number | Inl e \<Rightarrow> 0)) \<and>
   (CHR ''-'' \<notin> set t \<longrightarrow> (\<exists>n. clean_number (Some t) = Inr n \<and> 0 \<le> n))"
proof -
  let ?c = "replace_with_empty REGULAR_SPACE (replace_with_empty NON_BREAKING_SPACE t)"
  have a: "\<exists>n. clean_number text = Inr n"
    by (rule clean_number_returns)
  have b: "clean_number None = Inr 0" "clean_number (Some []) = Inr 0"
    by (simp_all add: clean_number_def DEFAULT_VOTES_def)
  have c: "t \<noteq> [] \<longrightarrow> clean_number (Some t) =
        Inr (case py_int ?c of Inr number \<Rightarrow> number | Inl e \<Rightarrow> 0)"
    by (simp add: clean_number_cases DEFAULT_VOTES_def split: sum.splits)
  have d: "CHR ''-'' \<notin> set t \<longrightarrow> (\<exists>n. clean_number (Some t) = Inr n \<and> 0 \<le> n)"
  proof
    assume m: "CHR ''-'' \<notin> set t"
    then have "CHR ''-'' \<notin> set ?c"
      by (simp add: replace_with_empty_def)
    then have "\<And>n. py_int ?c = Inr n \<Longrightarrow> 0 \<le> n"
      by (rule py_int_nonneg [rotated])
    then show "\<exists>n. clean_number (Some t) = Inr n \<and> 0 \<le> n"
      by (simp add: clean_number_cases DEFAULT_VOTES_def split: sum.splits)
  qed
  from a b c d show ?thesis by blast
qed

lemmas int_eval =
  py_int_def py_isspace_def in_literal_def is_digit_def digits_value_def digit_value_def
  int_max_str_digits_def

lemmas clean_eval =
  clean_number_def replace_with_empty_def REGULAR_SPACE_def NON_BREAKING_SPACE_def
  DEFAULT_VOTES_def int_eval

text \<open>
  The theorem at \<open>"1 234"\<close> and \<open>"abc"\<close>, with the value at a text with a
  non-breaking space.
\<close>

theorem clean_number_total_witness:
  "''1 234'' \<noteq> [] \<and> CHR ''-'' \<notin> set ''1 234'' \<and> clean_number (Some ''1 234'') = Inr 1234
   \<and> clean_number (Some ''abc'') = Inr 0
   \<and> clean_number (Some (''5'' @ [NON_BREAKING_SPACE] @ ''678'')) = Inr 5678"
  using clean_number_total [of "Some ''abc''" "''1 234''"]
  by (simp add: clean_eval)

text \<open>
  C2 as stated fails: a text with a minus sign gives a negative result.
\<close>

theorem clean_number_negative: "clean_number (Some ''-5'') = Inr (- 5)"
  by (simp add: clean_eval)

section \<open>Properties of the listing extractor\<close>

lemma scrape_row_complete:
  "scrape_row e base_url acc row =
     (if row_complete row then
        (case urljoin e base_url (row_href row) of
           Inl err \<Rightarrow> Inl err
         | Inr u \<Rightarrow> Inr (acc @ [stub_of e base_url row]))
      else Inr acc)"
  by (auto simp: scrape_row_def row_complete_def stub_of_def full_link_of_def row_code_def
      row_href_def row_name_def split: option.splits sum.splits)

lemma scrape_rows_accepted:
  "list_all (href_accepted e base_url) (filter row_complete rows) \<Longrightarrow>
   scrape_rows e base_url rows acc =
     Inr (acc @ map (stub_of e base_url) (filter row_complete rows))"
proof (induction rows arbitrary: acc)
  case Nil
  then show ?case by simp
next
  case (Cons row rows)
  show ?case
  proof (cases "row_complete row")
    case True
    with Cons.prems obtain u where "urljoin e base_url (row_href row) = Inr u"
      by (auto simp: href_accepted_def split: sum.splits)
    moreover from Cons.prems True
    have "list_all (href_accepted e base_url) (filter row_complete rows)"
      by simp
    ultimately show ?thesis
      using True by (simp add: scrape_row_complete Cons.IH)
  next
    case False
    with Cons show ?thesis
      by (simp add: scrape_row_complete)
  qed
qed

lemma scrape_rows_rejected:
  "\<not> list_all (href_accepted e base_url) (filter row_complete rows) \<Longrightarrow>
   \<exists>err. scrape_rows e base_url rows acc = Inl err"
proof (induction rows arbitrary: acc)
  case Nil
  then show ?case by simp
next
  case (Cons row rows)
  show ?case
  proof (cases "scrape_row e base_url acc row")
    case (Inl err)
    then show ?thesis by simp
  next
    case (Inr acc')
    then have "row_complete row \<longrightarrow> href_accepted e base_url row"
      by (auto simp: scrape_row_complete href_accepted_def split: sum.splits if_splits)
    with Cons.prems
    have "\<not> list_all (href_accepted e base_url) (filter row_complete rows)"
      by (auto split: if_splits)
    from Cons.IH [OF this, of acc'] Inr show ?thesis
      by simp
  qed
qed

text \<open>
  C5 (as amended). When \<open>urljoin\<close> accepts the \<open>href\<close> of every complete row of the
  main table, \<open>scrape_municipalities_list\<close> returns the stubs of the complete rows, in
  the order of the rows: as many stubs as there are complete rows, each with the
  code, the name and the \<open>href\<close> of its row joined to the base URL; the other rows
  are skipped, and complete and skipped rows together are all the rows. When
  \<open>urljoin\<close> rejects the \<open>href\<close> of a complete row, its exception leaves
  \<open>scrape_municipalities_list\<close> and nothing is printed.
\<close>

theorem scrape_municipalities_list_stubs:
  "(list_all (href_accepted e base_url) (filter row_complete (table_rows main_page_soup)) \<longrightarrow>
      fst (scrape_municipalities_list e main_page_soup base_url w) =
        Inr (map (stub_of e base_url) (filter row_complete (table_rows main_page_soup)))
      \<and> (\<exists>ms. fst (scrape_municipalities_list e main_page_soup base_url w) = Inr ms \<and>
            length ms = length (filter row_complete (table_rows main_page_soup)))
      \<and> length (filter row_complete (table_rows main_page_soup))
          + length (filter (\<lambda>row. \<not> row_complete row) (table_rows main_page_soup)) =
        length (table_rows main_page_soup))
   \<and> (\<not> list_all (href_accepted e base_url)
           (filter row_complete (table_rows main_page_soup)) \<longrightarrow>
        (\<exists>err. scrape_municipalities_list e main_page_soup base_url w = (Inl err, w)))"
proof -
  have "\<exists>err. scrape_municipalities_list e main_page_soup base_url w = (Inl err, w)"
    if "\<not> list_all (href_accepted e base_url)
          (filter row_complete (table_rows main_page_soup))"
    using scrape_rows_rejected [OF that, of "[]"]
    by (auto simp: scrape_municipalities_list_def)
  then show ?thesis
    by (auto simp: scrape_municipalities_list_def scrape_rows_accepted
        sum_length_filter_compl)
qed

text \<open>
  The theorem on a listing of four rows, two of them complete.
\<close>

theorem scrape_municipalities_list_stubs_witness:
  "list_all (href_accepted env0 ''u/'') (filter row_complete (table_rows listing0)) \<and>
   (\<exists>ms. fst (scrape_municipalities_list env0 listing0 ''u/'' world0) = Inr ms \<and>
      map code ms = [Some ''506761'', Some ''589268''] \<and>
      map link ms = [Some ''u/ps311?obec=1'', Some ''u/ps311?obec=2''])"
proof -
  have a: "list_all (href_accepted env0 ''u/'') (filter row_complete (table_rows listing0))"
    by (simp add: listing0_def env0_def row_complete_def href_accepted_def)
  from scrape_municipalities_list_stubs [of env0 "''u/''" listing0 world0] a
  have "fst (scrape_municipalities_list env0 listing0 ''u/'' world0) =
      Inr (map (stub_of env0 ''u/'') (filter row_complete (table_rows listing0)))"
    by blast
  then show ?thesis
    using a
    by (simp add: listing0_def env0_def row_complete_def stub_of_def full_link_of_def
        row_code_def row_href_def row_name_def)
qed

text \<open>
  C5 as stated fails: for the \<open>href\<close> \<open>"//["\<close> of a complete row \<open>urljoin\<close> raises
  \<open>ValueError\<close>, and \<open>scrape_municipalities_list\<close> raises it instead of returning a
  stub.
\<close>

theorem scrape_municipalities_list_raises:
  "list_all row_complete (table_rows listing_ipv6) \<and>
   length (table_rows listing_ipv6) = 1 \<and>
   urljoin env_ipv6 ''u/'' ''//['' = Inl ValueError \<and>
   scrape_municipalities_list env_ipv6 listing_ipv6 ''u/'' world0 = (Inl ValueError, world0)"
  by (simp add: listing_ipv6_def env_ipv6_def row_complete_def scrape_municipalities_list_def
      scrape_row_def)

section \<open>Properties of the detail extractor\<close>

lemma clean_number_votes_of: "clean_number (Some t) = Inr (votes_of t)"
  using clean_number_returns [of "Some t"] by (auto simp: votes_of_def)

lemma summary_field_value: "summary_field element = Inr (field_value element)"
  by (simp add: summary_field_def field_value_def DEFAULT_VOTES_def clean_number_votes_of
      split: option.splits)

lemma party_rows_foldl: "party_rows rows ps = Inr (foldl row_step ps rows)"
  by (induction rows arbitrary: ps)
    (simp_all add: row_step_def Let_def clean_number_votes_of name_kept_def info_of_def
      MIN_CELLS_PER_ROW_def PARTY_NUMBER_CELL_INDEX_def PARTY_NAME_CELL_INDEX_def
      PARTY_VOTES_CELL_INDEX_def INVALID_PARTY_NAME_def)

lemma party_tables_foldl:
  "party_tables containers ps = Inr (foldl row_step ps (data_rows containers))"
proof (induction containers ps rule: party_tables.induct)
  case (1 ps)
  then show ?case by (simp add: data_rows_def)
next
  case (2 containers ps)
  then show ?case by (simp add: data_rows_def)
next
  case (3 table containers ps)
  then show ?case
    by (simp add: data_rows_def party_rows_foldl HEADER_ROW_INDEX_def drop_Suc)
qed

lemma last_kept_Cons:
  "last_kept k (c # rows) =
     (case last_kept k rows of
        None \<Rightarrow> if c ! 0 = k \<and> name_kept (c ! 1) then Some c else None
      | Some x \<Rightarrow> Some x)"
  by (simp add: last_kept_def split: list.splits)

lemma map_of_row_step:
  "map_of (row_step ps c) k =
     (if 3 \<le> length c \<and> name_kept (c ! 1) \<and> c ! 0 = k then Some (info_of c)
      else map_of ps k)"
  by (simp add: row_step_def update_conv)

lemma map_of_foldl_row_step:
  "map_of (foldl row_step ps rows) k =
     (case last_kept k (filter (\<lambda>cells. 3 \<le> length cells) rows) of
        None \<Rightarrow> map_of ps k
      | Some cells \<Rightarrow> Some (info_of cells))"
proof (induction rows arbitrary: ps)
  case Nil
  then show ?case by (simp add: last_kept_def)
next
  case (Cons c rows)
  have "map_of (foldl row_step ps (c # rows)) k =
      (case last_kept k (filter (\<lambda>cells. 3 \<le> length cells) rows) of
         None \<Rightarrow> map_of (row_step ps c) k
       | Some cells \<Rightarrow> Some (info_of cells))"
    by (simp add: Cons.IH)
  then show ?case
    by (simp add: map_of_row_step last_kept_Cons split: option.splits)
qed

lemma distinct_row_step:
  "distinct (map fst ps) \<Longrightarrow> distinct (map fst (row_step ps c))"
  by (simp add: row_step_def distinct_update)

lemma distinct_foldl_row_step:
  "distinct (map fst ps) \<Longrightarrow> distinct (map fst (foldl row_step ps rows))"
  by (induction rows arbitrary: ps) (simp_all add: distinct_row_step)

lemma foldl_row_step_none_kept:
  "list_all (\<lambda>cells. \<not> name_kept (cells ! 1)) (filter (\<lambda>cells. 3 \<le> length cells) rows) \<Longrightarrow>
   foldl row_step ps rows = ps"
proof (induction rows arbitrary: ps)
  case Nil
  then show ?case by simp
next
  case (Cons c rows)
  from Cons.prems have "row_step ps c = ps"
    by (auto simp: row_step_def)
  moreover from Cons.prems
  have "list_all (\<lambda>cells. \<not> name_kept (cells ! 1)) (filter (\<lambda>cells. 3 \<le> length cells) rows)"
    by (simp split: if_splits)
  ultimately show ?case
    using Cons.IH by simp
qed

lemma scrape_one_place_details_value:
  "scrape_one_place_details (Some page) =
     Inr (Some \<lparr> code = None, location = None, link = None,
                 registered = Some (field_value (registered_element page)),
                 envelopes = Some (field_value (envelopes_element page)),
                 valid = Some (field_value (valid_votes_element page)),
                 parties = Some (foldl row_step [] (data_rows (result_tables page))) \<rparr>)"
  by (simp add: scrape_one_place_details_def summary_field_value party_tables_foldl)

lemma qualifying_rows_cells:
  "cells \<in> set (qualifying_rows page) \<longleftrightarrow>
     cells \<in> set (data_rows (result_tables page)) \<and> 3 \<le> length cells"
  by (simp add: qualifying_rows_def)

lemma last_kept_None_iff:
  "last_kept k rows = None \<longleftrightarrow> \<not> (\<exists>cells \<in> set rows. cells ! 0 = k \<and> name_kept (cells ! 1))"
proof -
  let ?f = "filter (\<lambda>cells. cells ! 0 = k \<and> name_kept (cells ! 1)) rows"
  have "last_kept k rows = None \<longleftrightarrow> ?f = []"
    by (simp add: last_kept_def split: list.splits)
  also have "\<dots> \<longleftrightarrow> \<not> (\<exists>cells \<in> set rows. cells ! 0 = k \<and> name_kept (cells ! 1))"
    by (simp add: filter_empty_conv)
  finally show ?thesis .
qed

lemma map_of_parties_page:
  "map_of (foldl row_step [] (data_rows (result_tables page))) k =
     map_option info_of (last_kept k (qualifying_rows page))"
  by (simp add: map_of_foldl_row_step qualifying_rows_def split: option.splits)

text \<open>
  C6. For every parsed detail page \<open>scrape_one_place_details\<close> returns a record with a
  parties dictionary in which: the party number of every qualifying row whose name
  is kept (not empty, not \<open>"-"\<close>) is a key; a party number is a key exactly when some
  qualifying row with a kept name carries it; and the value stored for it comes
  from the last such row. A qualifying row whose name is empty or \<open>"-"\<close> is never
  the source of an entry.
\<close>

theorem party_kept_iff_name_kept:
  "\<exists>d ps. scrape_one_place_details (Some page) = Inr (Some d) \<and> parties d = Some ps \<and>
     (\<forall>cells \<in> set (qualifying_rows page). name_kept (cells ! 1) \<longrightarrow> cells ! 0 \<in> fst ` set ps) \<and>
     (\<forall>k. k \<in> fst ` set ps \<longleftrightarrow>
            (\<exists>cells \<in> set (qualifying_rows page). cells ! 0 = k \<and> name_kept (cells ! 1))) \<and>
     (\<forall>k. map_of ps k = map_option info_of (last_kept k (qualifying_rows page)))"
proof -
  let ?ps = "foldl row_step [] (data_rows (result_tables page))"
  have m: "\<And>k. map_of ?ps k = map_option info_of (last_kept k (qualifying_rows page))"
    by (rule map_of_parties_page)
  have dom: "\<And>k. k \<in> fst ` set ?ps \<longleftrightarrow>
      (\<exists>cells \<in> set (qualifying_rows page). cells ! 0 = k \<and> name_kept (cells ! 1))"
  proof -
    fix k
    have "k \<in> fst ` set ?ps \<longleftrightarrow> map_of ?ps k \<noteq> None"
      by (simp add: map_of_eq_None_iff)
    also have "\<dots> \<longleftrightarrow> last_kept k (qualifying_rows page) \<noteq> None"
      by (simp add: m)
    also have "\<dots> \<longleftrightarrow>
        (\<exists>cells \<in> set (qualifying_rows page). cells ! 0 = k \<and> name_kept (cells ! 1))"
      by (simp add: last_kept_None_iff)
    finally show "k \<in> fst ` set ?ps \<longleftrightarrow>
        (\<exists>cells \<in> set (qualifying_rows page). cells ! 0 = k \<and> name_kept (cells ! 1))" .
  qed
  have kept: "\<forall>cells \<in> set (qualifying_rows page).
      name_kept (cells ! 1) \<longrightarrow> cells ! 0 \<in> fst ` set ?ps"
    using dom by blast
  show ?thesis
    using m dom kept by (simp add: scrape_one_place_details_value)
qed

text \<open>
  The theorem on a page with a header row, party 1 in two rows, a party named
  \<open>"-"\<close> and a row of one cell.
\<close>

theorem party_kept_iff_name_kept_witness:
  "\<exists>d ps. scrape_one_place_details (Some page0) = Inr (Some d) \<and> parties d = Some ps \<and>
     map_of ps ''1'' = Some \<lparr>nazev = ''B'', hlasy = 7\<rparr> \<and> map_of ps ''2'' = None"
proof -
  have q: "qualifying_rows page0 = [[''1'', ''A'', ''10''], [''2'', ''-'', ''5''], [''1'', ''B'', ''7'']]"
    by (simp add: qualifying_rows_def data_rows_def page0_def)
  have v: "votes_of ''7'' = 7"
    by (simp add: votes_of_def clean_eval)
  have "last_kept ''1'' (qualifying_rows page0) = Some [''1'', ''B'', ''7'']"
       "last_kept ''2'' (qualifying_rows page0) = None"
    by (simp_all add: q last_kept_def name_kept_def)
  then show ?thesis
    using party_kept_iff_name_kept [of page0] by (auto simp: info_of_def v)
qed

text \<open>
  C7. \<open>scrape_one_place_details\<close> returns \<open>None\<close> exactly when its argument is \<open>None\<close>.
  For a parsed page it returns a record in which a summary field that is not found
  is 0, a field that is found is the cleaned number of its text, and the parties
  dictionary is empty when no qualifying row has a kept name.
\<close>

theorem scrape_one_place_details_absent_iff:
  "(scrape_one_place_details detail_soup = Inr None \<longleftrightarrow> detail_soup = None) \<and>
   (\<exists>d. scrape_one_place_details (Some page) = Inr (Some d) \<and>
      (registered_element page = None \<longrightarrow> registered d = Some 0) \<and>
      (envelopes_element page = None \<longrightarrow> envelopes d = Some 0) \<and>
      (valid_votes_element page = None \<longrightarrow> valid d = Some 0) \<and>
      (\<forall>t. registered_element page = Some t \<longrightarrow> registered d = Some (votes_of t)) \<and>
      (\<forall>t. envelopes_element page = Some t \<longrightarrow> envelopes d = Some (votes_of t)) \<and>
      (\<forall>t. valid_votes_element page = Some t \<longrightarrow> valid d = Some (votes_of t)) \<and>
      (list_all (\<lambda>cells. \<not> name_kept (cells ! 1)) (qualifying_rows page) \<longrightarrow>
         parties d = Some []))"
proof -
  have a: "scrape_one_place_details detail_soup = Inr None \<longleftrightarrow> detail_soup = None"
  proof (cases detail_soup)
    case None
    then show ?thesis by (simp add: scrape_one_place_details_def)
  next
    case (Some p)
    then show ?thesis by (simp add: scrape_one_place_details_value)
  qed
  have b: "list_all (\<lambda>cells. \<not> name_kept (cells ! 1)) (qualifying_rows page) \<longrightarrow>
      foldl row_step [] (data_rows (result_tables page)) = []"
    by (simp add: qualifying_rows_def foldl_row_step_none_kept)
  show ?thesis
    using a b by (simp add: scrape_one_place_details_value field_value_def)
qed

text \<open>
  The theorem on a page without the envelopes field, and on the absent page.
\<close>

theorem scrape_one_place_details_absent_iff_witness:
  "envelopes_element page0 = None \<and> registered_element page0 = Some ''1 234'' \<and>
   (\<exists>d. scrape_one_place_details (Some page0) = Inr (Some d) \<and> envelopes d = Some 0 \<and>
      registered d = Some 1234) \<and>
   scrape_one_place_details None = Inr None"
proof -
  have v: "votes_of ''1 234'' = 1234"
    by (simp add: votes_of_def clean_eval)
  have e: "envelopes_element page0 = None" "registered_element page0 = Some ''1 234''"
    by (simp_all add: page0_def)
  show ?thesis
    using scrape_one_place_details_absent_iff [of None page0] e by (auto simp: v)
qed

section \<open>Properties of the exporter\<close>

subsection \<open>The sorted party columns\<close>

lemma set_collect_parties:
  "fst ` set (collect_parties ps acc) = fst ` set acc \<union> fst ` set ps"
proof (induction ps acc rule: collect_parties.induct)
  case (1 acc)
  then show ?case by simp
next
  case (2 party_number info items acc)
  then show ?case
    by (auto simp: dom_update)
qed

lemma distinct_collect_parties:
  "distinct (map fst acc) \<Longrightarrow> distinct (map fst (collect_parties ps acc))"
proof (induction ps acc rule: collect_parties.induct)
  case (1 acc)
  then show ?case by simp
next
  case (2 party_number info items acc)
  then show ?case
    by (simp add: distinct_update)
qed

lemma set_all_parties:
  "fst ` set (all_parties ms acc) = fst ` set acc \<union> party_ids ms"
proof (induction ms arbitrary: acc)
  case Nil
  then show ?case by (simp add: party_ids_def)
next
  case (Cons m ms)
  have "party_ids (m # ms) =
      (case parties m of None \<Rightarrow> {} | Some ps \<Rightarrow> fst ` set ps) \<union> party_ids ms"
    by (simp add: party_ids_def)
  then show ?case
    by (auto simp: Cons.IH set_collect_parties split: option.splits)
qed

lemma distinct_all_parties:
  "distinct (map fst acc) \<Longrightarrow> distinct (map fst (all_parties ms acc))"
  by (induction ms arbitrary: acc) (simp_all add: distinct_collect_parties split: option.splits)

lemma py_int_error: "py_int t = Inl err \<Longrightarrow> err = ValueError"
  by (simp add: py_int_def Let_def split: if_splits)

lemma py_int_int_of: "py_int t = Inr n \<Longrightarrow> int_of t = n"
  by (simp add: int_of_def)

lemma temp_list_to_sort_valid:
  "list_all (\<lambda>item. \<exists>n. py_int (fst item) = Inr n) items \<Longrightarrow>
   temp_list_to_sort items = Inr (map keyed items)"
  by (induction items) (auto simp: keyed_def py_int_int_of)

lemma temp_list_to_sort_invalid:
  "\<not> list_all (\<lambda>item. \<exists>n. py_int (fst item) = Inr n) items \<Longrightarrow>
   temp_list_to_sort items = Inl ValueError"
proof (induction items)
  case Nil
  then show ?case by simp
next
  case (Cons item items)
  obtain t n where item: "item = (t, n)" by (cases item)
  show ?case
  proof (cases "py_int t")
    case (Inl err)
    then show ?thesis using item py_int_error by simp
  next
    case (Inr k)
    with Cons item show ?thesis by (simp split: sum.splits)
  qed
qed

lemma temp_list_to_sort_Inr:
  "temp_list_to_sort items = Inr temp \<Longrightarrow>
   list_all (\<lambda>item. \<exists>n. py_int (fst item) = Inr n) items \<and> temp = map keyed items"
  using temp_list_to_sort_invalid [of items] temp_list_to_sort_valid [of items]
  by (cases "list_all (\<lambda>item. \<exists>n. py_int (fst item) = Inr n) items") simp_all

lemma sorted_fst_of_sorted:
  fixes xs :: "(int \<times> string \<times> string) list"
  shows "sorted xs \<Longrightarrow> sorted (map fst xs)"
  by (induction xs) (auto simp: less_eq_prod_def)

lemma map_fst_keyed: "\<forall>x \<in> set xs. fst x = int_of (fst (snd x)) \<Longrightarrow>
   map fst xs = map (int_of \<circ> fst) (map snd xs)"
  by (induction xs) simp_all

lemma sorted_parties_Inr:
  assumes "sorted_parties ms = Inr sp"
  shows "sp = map snd (sort (map keyed (all_parties ms [])))"
    and "set sp = set (all_parties ms [])"
    and "distinct (map fst sp)"
    and "fst ` set sp = party_ids ms"
    and "sorted (map (int_of \<circ> fst) sp)"
    and "list_all (\<lambda>item. \<exists>n. py_int (fst item) = Inr n) sp"
    and "length sp = length (all_parties ms [])"
proof -
  let ?items = "all_parties ms []"
  from assms obtain temp where t: "temp_list_to_sort ?items = Inr temp"
    and sp: "sp = map snd (sort temp)"
    by (auto simp: sorted_parties_def split: sum.splits)
  from temp_list_to_sort_Inr [OF t]
  have ok: "list_all (\<lambda>item. \<exists>n. py_int (fst item) = Inr n) ?items"
    and temp: "temp = map keyed ?items" by simp_all
  show 1: "sp = map snd (sort (map keyed ?items))"
    by (simp add: sp temp)
  have sk: "map snd (map keyed ?items) = ?items"
    by (simp add: comp_def keyed_def)
  show 2: "set sp = set ?items"
  proof -
    have "set sp = snd ` set (map keyed ?items)"
      by (simp add: 1)
    also have "\<dots> = set (map snd (map keyed ?items))"
      by (simp only: set_map)
    finally show ?thesis
      by (simp only: sk)
  qed
  have di: "distinct (map fst ?items)"
    by (rule distinct_all_parties) simp
  then have "distinct ?items" and inj: "inj_on fst (set ?items)"
    by (simp_all add: distinct_map)
  then have "distinct (map snd (map keyed ?items))"
    by (simp only: sk)
  then have "distinct (map keyed ?items)"
    using distinct_map [of snd "map keyed ?items"] by blast
  then have "distinct (sort (map keyed ?items))"
    by simp
  moreover have "inj_on snd (set (sort (map keyed ?items)))"
    by (auto simp: inj_on_def keyed_def)
  ultimately have "distinct sp"
    unfolding 1 by (simp add: distinct_map)
  then show "distinct (map fst sp)"
    using inj 2 by (simp add: distinct_map)
  show "fst ` set sp = party_ids ms"
    by (simp add: 2 set_all_parties)
  have "\<forall>x \<in> set (sort (map keyed ?items)). fst x = int_of (fst (snd x))"
    by (auto simp: keyed_def)
  then have "map fst (sort (map keyed ?items)) = map (int_of \<circ> fst) sp"
    unfolding 1 by (rule map_fst_keyed)
  moreover have "sorted (map fst (sort (map keyed ?items)))"
    by (rule sorted_fst_of_sorted) simp
  ultimately show "sorted (map (int_of \<circ> fst) sp)"
    by simp
  show "list_all (\<lambda>item. \<exists>n. py_int (fst item) = Inr n) sp"
    using ok 2 by (simp add: list_all_iff)
  show "length sp = length ?items"
    by (simp add: 1)
qed

lemma sorted_parties_valid:
  assumes "\<forall>k \<in> party_ids ms. \<exists>n. py_int k = Inr n"
  shows "\<exists>sp. sorted_parties ms = Inr sp"
proof -
  have "list_all (\<lambda>item. \<exists>n. py_int (fst item) = Inr n) (all_parties ms [])"
    using assms set_all_parties [of ms "[]"] by (auto simp: list_all_iff)
  then show ?thesis
    by (simp add: sorted_parties_def temp_list_to_sort_valid)
qed

lemma sorted_parties_invalid:
  assumes "k \<in> party_ids ms" and "\<not> (\<exists>n. py_int k = Inr n)"
  shows "sorted_parties ms = Inl ValueError"
proof -
  have "k \<in> fst ` set (all_parties ms [])"
    using assms(1) by (simp add: set_all_parties)
  then have "\<not> list_all (\<lambda>item. \<exists>n. py_int (fst item) = Inr n) (all_parties ms [])"
    using assms(2) by (auto simp: list_all_iff)
  then show ?thesis
    by (simp add: sorted_parties_def temp_list_to_sort_invalid)
qed

subsection \<open>The table\<close>

lemma set_foldl_add_key: "set (foldl add_key acc ks) = set acc \<union> set ks"
  by (induction ks arbitrary: acc) (auto simp: add_key_def)

lemma foldl_add_key_known: "set ks \<subseteq> set acc \<Longrightarrow> foldl add_key acc ks = acc"
  by (induction ks arbitrary: acc) (simp_all add: add_key_def)

lemma distinct_foldl_add_key: "distinct acc \<Longrightarrow> distinct (foldl add_key acc ks)"
  by (induction ks arbitrary: acc) (simp_all add: add_key_def)

lemma foldl_add_key_twice:
  "foldl add_key [] (foldl add_key [] ks) = foldl add_key [] ks"
proof -
  have "\<And>acc. distinct (acc @ xs) \<Longrightarrow> foldl add_key acc xs = acc @ xs" for xs
    by (induction xs) (simp_all add: add_key_def)
  from this [of "[]" "foldl add_key [] ks"] show ?thesis
    by (simp add: distinct_foldl_add_key)
qed

lemma keys_foldl_update:
  "map fst (foldl (\<lambda>row x. AList.update (key x) (val x) row) row0 xs) =
     foldl add_key (map fst row0) (map key xs)"
  by (induction xs arbitrary: row0) (simp_all add: update_keys add_key_def)

lemma keys_csv_row_of:
  "map fst (csv_row_of sp m) = first_seen (base_columns @ map snd sp)"
proof -
  have a: "(\<lambda>row (party_number, party_name).
              AList.update party_name (CInt (party_votes m party_number)) row) =
        (\<lambda>row x. AList.update (snd x) (CInt (party_votes m (fst x))) row)"
    by (simp add: fun_eq_iff split: prod.splits)
  show ?thesis
    unfolding csv_row_of_def a first_seen_def
    by (simp add: keys_foldl_update [where key = snd]
        keys_foldl_update [where key = "\<lambda>c. c" and val = "dict_get m", simplified])
qed

lemma columns_DataFrame:
  assumes "ms \<noteq> []"
  shows "columns (DataFrame (csv_data sp ms)) = first_seen (base_columns @ map snd sp)"
proof -
  let ?K = "first_seen (base_columns @ map snd sp)"
  obtain m rest where ms: "ms = m # rest"
    using assms by (cases ms) simp_all
  have "concat (map (map fst) (csv_data sp ms)) = ?K @ concat (map (\<lambda>m. ?K) rest)"
    by (simp add: csv_data_def ms keys_csv_row_of comp_def)
  moreover have "foldl add_key [] ?K = ?K"
    unfolding first_seen_def by (rule foldl_add_key_twice)
  moreover have "set (concat (map (\<lambda>m. ?K) rest)) \<subseteq> set ?K"
    by auto
  ultimately have "foldl add_key [] (concat (map (map fst) (csv_data sp ms))) = ?K"
    by (simp add: foldl_add_key_known)
  then show ?thesis
    by (simp add: DataFrame_def Let_def first_seen_def [of "concat _"])
qed

lemma set_first_seen: "set (first_seen ks) = set ks"
  by (simp add: first_seen_def set_foldl_add_key)

lemma data_DataFrame:
  assumes "ms \<noteq> []"
  shows "data (DataFrame (csv_data sp ms)) =
    map (\<lambda>m. map (lookup (csv_row_of sp m)) (first_seen (base_columns @ map snd sp))) ms"
proof -
  have "data (DataFrame (csv_data sp ms)) =
      map (\<lambda>row. map (lookup row) (columns (DataFrame (csv_data sp ms)))) (csv_data sp ms)"
    by (simp add: DataFrame_def Let_def lookup_def)
  then have "data (DataFrame (csv_data sp ms)) =
      map (\<lambda>row. map (lookup row) (first_seen (base_columns @ map snd sp))) (csv_data sp ms)"
    by (simp only: columns_DataFrame [OF assms])
  then show ?thesis
    by (simp add: csv_data_def comp_def)
qed

lemma lookup_zip_map:
  "l \<in> set K \<Longrightarrow> (case map_of (zip K (map f K)) l of None \<Rightarrow> NaN | Some v \<Rightarrow> v) = f l"
  by (simp add: map_of_zip_map)

lemma getitem_same_keys:
  assumes "set labels = set K"
  shows "getitem \<lparr>columns = K, data = map (\<lambda>m. map (f m) K) ms\<rparr> labels =
    Inr \<lparr>columns = labels, data = map (\<lambda>m. map (f m) labels) ms\<rparr>"
proof -
  have "list_all (\<lambda>l. l \<in> set K) labels"
    using assms by (simp add: list_all_iff)
  moreover have "map (\<lambda>l. case map_of (zip K (map (f m) K)) l of None \<Rightarrow> NaN | Some v \<Rightarrow> v) labels
      = map (f m) labels" for m
    using assms by (simp add: lookup_zip_map)
  ultimately show ?thesis
    by (simp add: getitem_def comp_def)
qed

lemma final_dataframe_value:
  assumes "ms \<noteq> []" and "sorted_parties ms = Inr sp"
  shows "final_dataframe ms =
    Inr \<lparr> columns = base_columns @ map snd sp,
          data = map (\<lambda>m. map (lookup (csv_row_of sp m)) (base_columns @ map snd sp)) ms \<rparr>"
proof -
  let ?K = "first_seen (base_columns @ map snd sp)"
  let ?df = "DataFrame (csv_data sp ms)"
  have "?df = \<lparr>columns = columns ?df, data = data ?df\<rparr>"
    by simp
  then have df: "?df = \<lparr>columns = ?K,
      data = map (\<lambda>m. map (lookup (csv_row_of sp m)) ?K) ms\<rparr>"
    by (simp only: columns_DataFrame [OF assms(1)] data_DataFrame [OF assms(1)])
  have "set (base_columns @ map snd sp) = set ?K"
    by (simp only: set_first_seen)
  from getitem_same_keys [OF this, of "\<lambda>m. lookup (csv_row_of sp m)" ms]
  show ?thesis
    by (simp add: final_dataframe_def assms(2) df)
qed

lemma final_dataframe_empty: "final_dataframe [] = Inl KeyError"
  by (simp add: final_dataframe_def sorted_parties_def csv_data_def DataFrame_def
      first_seen_def getitem_def base_columns_def)

lemma final_dataframe_invalid:
  assumes "k \<in> party_ids ms" and "\<not> (\<exists>n. py_int k = Inr n)"
  shows "final_dataframe ms = Inl ValueError"
  by (simp add: final_dataframe_def sorted_parties_invalid [OF assms])

lemma map_of_foldl_update:
  "map_of (foldl (\<lambda>row x. AList.update (key x) (val x) row) row0 xs) c =
     (case map_of (rev (map (\<lambda>x. (key x, val x)) xs)) c of
        None \<Rightarrow> map_of row0 c
      | Some v \<Rightarrow> Some v)"
proof (induction xs arbitrary: row0)
  case Nil
  then show ?case by simp
next
  case (Cons x xs)
  show ?case
    by (simp add: Cons.IH update_conv map_add_def split: option.splits)
qed

lemma map_of_base_part:
  "map_of (foldl (\<lambda>row column. AList.update column (dict_get m column) row) [] cs) c =
     (if c \<in> set cs then Some (dict_get m c) else None)"
proof -
  have "map_of (rev (map (\<lambda>x. (x, dict_get m x)) cs)) c =
      (if c \<in> set cs then Some (dict_get m c) else None)"
    by (induction cs) (auto simp: map_add_def split: option.splits)
  then show ?thesis
    using map_of_foldl_update [of "\<lambda>c. c" "dict_get m" "[]" cs c]
    by (simp split: option.splits)
qed

lemma map_of_csv_row_of:
  "map_of (csv_row_of sp m) c =
     (case map_of (rev (map (\<lambda>x. (snd x, CInt (party_votes m (fst x)))) sp)) c of
        None \<Rightarrow> if c \<in> set base_columns then Some (dict_get m c) else None
      | Some v \<Rightarrow> Some v)"
proof -
  have a: "(\<lambda>row (party_number, party_name).
              AList.update party_name (CInt (party_votes m party_number)) row) =
        (\<lambda>row x. AList.update (snd x) (CInt (party_votes m (fst x))) row)"
    by (simp add: fun_eq_iff split: prod.splits)
  let ?row0 = "foldl (\<lambda>row column. AList.update column (dict_get m column) row) [] base_columns"
  have "map_of (csv_row_of sp m) c =
      (case map_of (rev (map (\<lambda>x. (snd x, CInt (party_votes m (fst x)))) sp)) c of
         None \<Rightarrow> map_of ?row0 c
       | Some v \<Rightarrow> Some v)"
    unfolding csv_row_of_def a by (rule map_of_foldl_update)
  then show ?thesis
    by (simp only: map_of_base_part)
qed

lemma lookup_base_column:
  assumes "c \<in> set base_columns" and "c \<notin> snd ` set sp"
  shows "lookup (csv_row_of sp m) c = dict_get m c"
proof -
  have "map_of (rev (map (\<lambda>x. (snd x, CInt (party_votes m (fst x)))) sp)) c = None"
    using assms(2) by (simp add: map_of_eq_None_iff image_image)
  then show ?thesis
    using assms(1) by (simp add: lookup_def map_of_csv_row_of)
qed

lemma lookup_party_column:
  assumes "distinct (map snd sp)" and "(k, name) \<in> set sp"
  shows "lookup (csv_row_of sp m) name = CInt (party_votes m k)"
proof -
  let ?kvs = "rev (map (\<lambda>x. (snd x, CInt (party_votes m (fst x)))) sp)"
  have "distinct (map fst ?kvs)"
    using assms(1) by (simp add: rev_map [symmetric] comp_def)
  moreover have "(name, CInt (party_votes m k)) \<in> set ?kvs"
    using assms(2) by force
  ultimately have "map_of ?kvs name = Some (CInt (party_votes m k))"
    by (simp only: map_of_eq_Some_iff)
  then show ?thesis
    by (simp add: lookup_def map_of_csv_row_of)
qed

lemma lookup_absent_party_column:
  assumes "parties m = None" and "(k, name) \<in> set sp"
  shows "lookup (csv_row_of sp m) name = CInt 0"
proof -
  let ?kvs = "rev (map (\<lambda>x. (snd x, CInt (party_votes m (fst x)))) sp)"
  have z: "\<And>x. party_votes m x = 0"
    using assms(1) by (simp add: party_votes_def DEFAULT_VOTES_def)
  have "name \<in> fst ` set ?kvs"
    using assms(2) by force
  then obtain v where v: "map_of ?kvs name = Some v"
    by (metis map_of_eq_None_iff not_Some_eq)
  from map_of_SomeD [OF this] have "v = CInt 0"
    by (auto simp: z)
  with v have "map_of ?kvs name = Some (CInt 0)"
    by simp
  then show ?thesis
    by (simp add: lookup_def map_of_csv_row_of)
qed

subsection \<open>Examples\<close>

lemmas export_eval =
  sorted_parties_def final_dataframe_def csv_data_def csv_row_of_def DataFrame_def getitem_def
  first_seen_def add_key_def base_columns_def dict_get_def party_votes_def
  CODE_COLUMN_def LOCATION_COLUMN_def REGISTERED_COLUMN_def ENVELOPES_COLUMN_def
  VALID_COLUMN_def DEFAULT_VALUE_def DEFAULT_VOTES_def

lemma sp_leading_zero:
  "sorted_parties [m_leading_zero] = Inr [(''01'', ''PartyY''), (''1'', ''PartyX'')]"
  by (simp add: export_eval m_leading_zero_def int_eval less_eq_prod_def less_prod_def
      less_char_def less_eq_char_def)

lemma sp_same_name:
  "sorted_parties [m_same_name] = Inr [(''1'', ''X''), (''2'', ''X'')]"
  by (simp add: export_eval m_same_name_def int_eval less_eq_prod_def less_prod_def)

lemma df_same_name:
  "final_dataframe [m_same_name] =
     Inr \<lparr> columns = [''code'', ''location'', ''registered'', ''envelopes'', ''valid'', ''X'', ''X''],
           data = [[CStr ''A'', CStr ''Alpha'', CInt 10, CInt 9, CInt 8, CInt 50, CInt 50]] \<rparr>"
  by (simp add: final_dataframe_def sp_same_name)
     (simp add: export_eval m_same_name_def)

lemma df_not_a_number: "final_dataframe [m_not_a_number] = Inl ValueError"
  by (simp add: export_eval m_not_a_number_def int_eval)

lemma df_alpha_bravo:
  "final_dataframe [m_alpha, m_bravo] =
     Inr \<lparr> columns = [''code'', ''location'', ''registered'', ''envelopes'', ''valid'',
                       ''PartyX'', ''PartyY''],
           data = [[CStr ''A'', CStr ''Alpha'', CInt 10, CInt 9, CInt 8, CInt 100, CInt 50],
                   [CStr ''B'', CStr ''Bravo'', CInt 7, CInt 6, CInt 5, CInt 0, CInt 30]] \<rparr>"
proof -
  have sp: "sorted_parties [m_alpha, m_bravo] = Inr [(''1'', ''PartyX''), (''2'', ''PartyY'')]"
    by (simp add: export_eval m_alpha_def m_bravo_def int_eval less_eq_prod_def less_prod_def)
  show ?thesis
    by (simp add: final_dataframe_def sp) (simp add: export_eval m_alpha_def m_bravo_def)
qed

subsection \<open>Claims about the exporter\<close>

lemma export_to_csv_raises:
  "final_dataframe ms = Inl err \<Longrightarrow>
   export_to_csv e ms fn w = (Some err, print (MsgExporting fn) w)"
  by (simp add: export_to_csv_def)

lemma export_to_csv_writes:
  assumes "final_dataframe ms = Inr df"
  shows "fst (export_to_csv e ms fn w) =
           (case to_csv e fn df of
              None \<Rightarrow> None
            | Some err \<Rightarrow> if err = IOError then None else Some err)"
    and "to_csv_calls (snd (export_to_csv e ms fn w)) = to_csv_calls w @ [(fn, df)]"
    and "requested (snd (export_to_csv e ms fn w)) = requested w"
    and "saved (snd (export_to_csv e ms fn w)) =
           (if to_csv e fn df = None then saved w @ [(fn, df)] else saved w)"
    and "stdout (snd (export_to_csv e ms fn w)) =
           stdout w @ MsgExporting fn #
             (case to_csv e fn df of
                None \<Rightarrow> [MsgSaved fn]
              | Some err \<Rightarrow> if err = IOError then [MsgWriteError] else [])"
  using assms by (simp_all add: export_to_csv_def print_def Let_def split: option.splits)

lemma int_of_small: "int_of ''01'' = 1" "int_of ''1'' = 1" "int_of ''2'' = 2"
  by (simp_all add: int_of_def int_eval)

text \<open>
  C4 (as amended). When the sort step succeeds, the integers of the party numbers
  of the party columns, in column order, never decrease; they strictly increase
  when no two distinct party numbers of the records denote the same integer. For a
  non-empty list of records the columns of the table are the base columns followed
  by the party names in that order.
\<close>

theorem party_columns_sorted:
  assumes "sorted_parties ms = Inr sp"
  shows "sorted (map (int_of \<circ> fst) sp) \<and>
    (inj_on int_of (party_ids ms) \<longrightarrow> sorted_wrt (<) (map (int_of \<circ> fst) sp)) \<and>
    (ms \<noteq> [] \<longrightarrow>
       (\<exists>df. final_dataframe ms = Inr df \<and> columns df = base_columns @ map snd sp))"
proof -
  note sp = sorted_parties_Inr [OF assms]
  have s: "sorted (map (int_of \<circ> fst) sp)"
    by (rule sp(5))
  have "sorted_wrt (<) (map (int_of \<circ> fst) sp)" if inj: "inj_on int_of (party_ids ms)"
  proof -
    have "inj_on int_of (set (map fst sp))"
      using inj sp(4) by simp
    then have "distinct (map int_of (map fst sp))"
      using sp(3) by (simp only: distinct_map)
    then show ?thesis
      using s by (simp add: strict_sorted_iff)
  qed
  moreover have "\<exists>df. final_dataframe ms = Inr df \<and> columns df = base_columns @ map snd sp"
    if "ms \<noteq> []"
    using final_dataframe_value [OF that assms] by simp
  ultimately show ?thesis
    using s by blast
qed

text \<open>
  The theorem on the records of the end-to-end example.
\<close>

theorem party_columns_sorted_witness:
  "sorted_parties [m_alpha, m_bravo] = Inr [(''1'', ''PartyX''), (''2'', ''PartyY'')] \<and>
   inj_on int_of (party_ids [m_alpha, m_bravo]) \<and>
   sorted_wrt (<) (map (int_of \<circ> fst) [(''1'', ''PartyX''), (''2'', ''PartyY'')]) \<and>
   (\<exists>df. final_dataframe [m_alpha, m_bravo] = Inr df \<and>
      columns df = base_columns @ [''PartyX'', ''PartyY''])"
proof -
  have sp: "sorted_parties [m_alpha, m_bravo] = Inr [(''1'', ''PartyX''), (''2'', ''PartyY'')]"
    by (simp add: export_eval m_alpha_def m_bravo_def int_eval less_eq_prod_def less_prod_def)
  have ids: "party_ids [m_alpha, m_bravo] = {''1'', ''2''}"
    by (auto simp: party_ids_def m_alpha_def m_bravo_def)
  have inj: "inj_on int_of (party_ids [m_alpha, m_bravo])"
    by (simp add: ids int_of_small)
  show ?thesis
    using party_columns_sorted [OF sp] sp inj by simp
qed

text \<open>
  C4 as stated fails: the party numbers \<open>"1"\<close> and \<open>"01"\<close> are different keys with the
  same integer, and give two adjacent columns that do not strictly increase.
\<close>

theorem party_columns_not_strict:
  "sorted_parties [m_leading_zero] = Inr [(''01'', ''PartyY''), (''1'', ''PartyX'')] \<and>
   int_of ''01'' = 1 \<and> int_of ''1'' = 1 \<and>
   \<not> sorted_wrt (<) (map (int_of \<circ> fst) [(''01'', ''PartyY''), (''1'', ''PartyX'')])"
  by (simp add: sp_leading_zero int_of_small)

lemma py_int_signed:
  assumes "c = CHR ''+'' \<or> c = CHR ''-''" and "r \<noteq> []" and "list_all is_digit r"
    and "length r \<le> int_max_str_digits"
  shows "py_int (c # r) = Inr (if c = CHR ''-'' then - digits_value r else digits_value r)"
proof -
  have "\<not> py_isspace c"
    using assms(1) by (auto simp: py_isspace_def)
  then have a: "dropWhile py_isspace (c # r) = c # r"
    by simp
  have neg: "(case c # r of [] \<Rightarrow> False | x # _ \<Rightarrow> x = CHR ''-'') = (c = CHR ''-'')"
    by simp
  have s2: "(case c # r of [] \<Rightarrow> []
      | x # r' \<Rightarrow> if x = CHR ''+'' \<or> x = CHR ''-'' then r' else c # r) = r"
    using assms(1) by simp
  have "list_all in_literal r"
    using assms(3) by (simp add: list_all_iff in_literal_def)
  then have b: "takeWhile in_literal r = r" "dropWhile in_literal r = []"
    by (simp_all add: list_all_iff)
  have d: "filter is_digit r = r"
    using assms(3) by (simp add: list_all_iff)
  have v: "valid_digits r"
    by (rule valid_digits_all_digits [OF assms(2,3)])
  show ?thesis
    unfolding py_int_def Let_def a neg s2 b d
    using v assms(4) by simp
qed

lemma py_int_literal:
  assumes "int_literal s" and "length (filter is_digit s) \<le> int_max_str_digits"
  shows "\<exists>n. py_int s = Inr n"
proof -
  from assms(1) obtain c r where s: "s = c # r"
    by (cases s) (simp_all add: int_literal_def)
  show ?thesis
  proof (cases "c = CHR ''+'' \<or> c = CHR ''-''")
    case True
    then have "\<not> is_digit c"
      by (auto simp: is_digit_def)
    moreover from assms(1) True have r: "r \<noteq> []" "list_all is_digit r"
      by (simp_all add: int_literal_def s)
    ultimately have "length r \<le> int_max_str_digits"
      using assms(2) by (simp add: s list_all_iff)
    from py_int_signed [OF True r this] show ?thesis
      by (simp add: s)
  next
    case False
    with assms(1) have all: "list_all is_digit s"
      by (simp add: int_literal_def s)
    then have "filter is_digit s = s"
      by (simp add: list_all_iff)
    with assms(2) have "length s \<le> int_max_str_digits"
      by simp
    from py_int_digit_string [OF _ all this] show ?thesis
      by (simp add: s)
  qed
qed

lemma long_id_facts:
  "int_literal long_id" "py_int long_id = Inl ValueError"
proof -
  have l: "long_id = CHR ''1'' # replicate 4300 (CHR ''1'')"
  proof -
    have "replicate (Suc 4300) (CHR ''1'') = CHR ''1'' # replicate 4300 (CHR ''1'')"
      by (rule replicate_Suc)
    moreover have "Suc 4300 = 4301"
      by simp
    ultimately show ?thesis
      by (simp only: long_id_def)
  qed
  have digit: "is_digit (CHR ''1'')"
    by (simp add: is_digit_def)
  then have all: "list_all is_digit long_id"
    by (simp add: long_id_def list_all_iff)
  then show "int_literal long_id"
    by (simp add: int_literal_def l)
  have "\<not> py_isspace (CHR ''1'')"
    by (simp add: py_isspace_def)
  then have a: "dropWhile py_isspace long_id = long_id"
    by (simp add: l)
  have c: "(case long_id of [] \<Rightarrow> []
      | c # r \<Rightarrow> if c = CHR ''+'' \<or> c = CHR ''-'' then r else long_id) = long_id"
    by (simp add: l)
  have "list_all in_literal long_id"
    using all by (simp add: list_all_iff in_literal_def)
  then have b: "takeWhile in_literal long_id = long_id"
    by (simp add: list_all_iff)
  have d: "length (filter is_digit long_id) = 4301"
    using digit by (simp add: long_id_def)
  have "\<not> length (filter is_digit long_id) \<le> int_max_str_digits"
    by (simp only: d int_max_str_digits_def)
  then show "py_int long_id = Inl ValueError"
    unfolding py_int_def Let_def a c b by (simp only: simp_thms if_False)
qed

text \<open>
  C10 (as amended). When every party number of the records is a decimal literal (an
  optional sign and one or more decimal digits) of at most \<open>int_max_str_digits\<close>
  digits, \<open>int\<close> accepts every one of them and the sort step succeeds: the export
  does not fail in it, and for a non-empty list of records it builds the table and
  calls \<open>to_csv\<close>. When \<open>int\<close> rejects some party number of the records,
  \<open>export_to_csv\<close> raises \<open>ValueError\<close> after its first message only: \<open>to_csv\<close> is not
  called and nothing is saved.
\<close>

theorem export_int_conversion:
  "((\<forall>k \<in> party_ids ms. int_literal k \<and> length (filter is_digit k) \<le> int_max_str_digits) \<longrightarrow>
      (\<forall>k \<in> party_ids ms. \<exists>n. py_int k = Inr n) \<and>
      (\<exists>sp. sorted_parties ms = Inr sp) \<and> final_dataframe ms \<noteq> Inl ValueError \<and>
      (ms \<noteq> [] \<longrightarrow>
         (\<exists>df. final_dataframe ms = Inr df \<and>
            to_csv_calls (snd (export_to_csv e ms fn w)) = to_csv_calls w @ [(fn, df)]))) \<and>
   ((\<exists>k \<in> party_ids ms. \<forall>n. py_int k \<noteq> Inr n) \<longrightarrow>
      export_to_csv e ms fn w = (Some ValueError, print (MsgExporting fn) w) \<and>
      to_csv_calls (snd (export_to_csv e ms fn w)) = to_csv_calls w \<and>
      saved (snd (export_to_csv e ms fn w)) = saved w)"
proof -
  have a: "(\<forall>k \<in> party_ids ms. \<exists>n. py_int k = Inr n) \<and>
      (\<exists>sp. sorted_parties ms = Inr sp) \<and> final_dataframe ms \<noteq> Inl ValueError \<and>
      (ms \<noteq> [] \<longrightarrow>
         (\<exists>df. final_dataframe ms = Inr df \<and>
            to_csv_calls (snd (export_to_csv e ms fn w)) = to_csv_calls w @ [(fn, df)]))"
    if lit: "\<forall>k \<in> party_ids ms. int_literal k \<and> length (filter is_digit k) \<le> int_max_str_digits"
  proof -
    have valid: "\<forall>k \<in> party_ids ms. \<exists>n. py_int k = Inr n"
      using lit py_int_literal by blast
    from sorted_parties_valid [OF valid] obtain sp where sp: "sorted_parties ms = Inr sp" ..
    have built: "\<exists>df. final_dataframe ms = Inr df \<and>
        to_csv_calls (snd (export_to_csv e ms fn w)) = to_csv_calls w @ [(fn, df)]"
      if "ms \<noteq> []"
      using final_dataframe_value [OF that sp] export_to_csv_writes(2) by blast
    have "final_dataframe ms \<noteq> Inl ValueError"
    proof (cases "ms = []")
      case True
      then show ?thesis by (simp add: final_dataframe_empty)
    next
      case False
      from final_dataframe_value [OF False sp] show ?thesis by simp
    qed
    with valid sp built show ?thesis by blast
  qed
  have b: "export_to_csv e ms fn w = (Some ValueError, print (MsgExporting fn) w) \<and>
      to_csv_calls (snd (export_to_csv e ms fn w)) = to_csv_calls w \<and>
      saved (snd (export_to_csv e ms fn w)) = saved w"
    if "\<exists>k \<in> party_ids ms. \<forall>n. py_int k \<noteq> Inr n"
  proof -
    from that obtain k where "k \<in> party_ids ms" and "\<not> (\<exists>n. py_int k = Inr n)"
      by blast
    from final_dataframe_invalid [OF this] show ?thesis
      by (simp add: export_to_csv_raises print_def)
  qed
  from a b show ?thesis by blast
qed

text \<open>
  The theorem on the end-to-end example and on a record with the party number
  \<open>"1a"\<close>, which is not a decimal literal.
\<close>

theorem export_int_conversion_witness:
  "party_ids [m_alpha, m_bravo] = {''1'', ''2''} \<and>
   int_literal ''1'' \<and> int_literal ''2'' \<and>
   length (filter is_digit ''1'') \<le> int_max_str_digits \<and>
   length (filter is_digit ''2'') \<le> int_max_str_digits \<and>
   sorted_parties [m_alpha, m_bravo] = Inr [(''1'', ''PartyX''), (''2'', ''PartyY'')] \<and>
   to_csv_calls (snd (export_to_csv env0 [m_alpha, m_bravo] ''out.csv'' world0)) \<noteq> [] \<and>
   ''1a'' \<in> party_ids [m_not_a_number] \<and> \<not> int_literal ''1a'' \<and>
   py_int ''1a'' = Inl ValueError \<and>
   export_to_csv env0 [m_not_a_number] ''out.csv'' world0 =
     (Some ValueError, print (MsgExporting ''out.csv'') world0) \<and>
   to_csv_calls (snd (export_to_csv env0 [m_not_a_number] ''out.csv'' world0)) = []"
proof -
  have ids: "party_ids [m_alpha, m_bravo] = {''1'', ''2''}"
    by (auto simp: party_ids_def m_alpha_def m_bravo_def)
  have lit: "int_literal ''1''" "int_literal ''2''" "\<not> int_literal ''1a''"
    by (simp_all add: int_literal_def is_digit_def)
  have all: "\<forall>k \<in> party_ids [m_alpha, m_bravo].
      int_literal k \<and> length (filter is_digit k) \<le> int_max_str_digits"
    by (simp add: ids lit is_digit_def int_max_str_digits_def)
  have p: "py_int ''1a'' = Inl ValueError"
    by (simp add: int_eval)
  have bad: "''1a'' \<in> party_ids [m_not_a_number]"
    by (simp add: party_ids_def m_not_a_number_def)
  have w0: "to_csv_calls world0 = []"
    by (simp add: world0_def)
  have sp: "sorted_parties [m_alpha, m_bravo] = Inr [(''1'', ''PartyX''), (''2'', ''PartyY'')]"
    by (simp add: export_eval m_alpha_def m_bravo_def int_eval less_eq_prod_def less_prod_def)
  from export_int_conversion [of "[m_alpha, m_bravo]" env0 "''out.csv''" world0] all
  have "\<exists>df. to_csv_calls (snd (export_to_csv env0 [m_alpha, m_bravo] ''out.csv'' world0)) =
      to_csv_calls world0 @ [(''out.csv'', df)]"
    by blast
  then have 1:
    "to_csv_calls (snd (export_to_csv env0 [m_alpha, m_bravo] ''out.csv'' world0)) \<noteq> []"
    by auto
  from export_int_conversion [of "[m_not_a_number]" env0 "''out.csv''" world0] bad p
  have 2: "export_to_csv env0 [m_not_a_number] ''out.csv'' world0 =
      (Some ValueError, print (MsgExporting ''out.csv'') world0) \<and>
    to_csv_calls (snd (export_to_csv env0 [m_not_a_number] ''out.csv'' world0)) =
      to_csv_calls world0"
    by (metis Inl_Inr_False)
  from 1 2 show ?thesis
    by (simp add: ids lit p bad w0 sp print_def is_digit_def int_max_str_digits_def)
qed

text \<open>
  C10 as stated fails: a party number of 4301 decimal digits is a decimal literal,
  and \<open>int\<close> raises \<open>ValueError\<close> for it, so that the export fails in the sort step.
\<close>

theorem export_int_conversion_long_literal:
  "int_literal long_id \<and> length long_id = 4301 \<and>
   party_ids [m_long_id] = {long_id} \<and>
   py_int long_id = Inl ValueError \<and>
   sorted_parties [m_long_id] = Inl ValueError \<and>
   export_to_csv env0 [m_long_id] ''out.csv'' world0 =
     (Some ValueError, print (MsgExporting ''out.csv'') world0)"
proof -
  have ids: "party_ids [m_long_id] = {long_id}"
    by (simp add: party_ids_def m_long_id_def)
  have bad: "long_id \<in> party_ids [m_long_id]" "\<not> (\<exists>n. py_int long_id = Inr n)"
    by (simp_all add: ids long_id_facts)
  have "length long_id = 4301"
    by (simp add: long_id_def)
  then show ?thesis
    using sorted_parties_invalid [OF bad] final_dataframe_invalid [OF bad]
    by (simp add: ids long_id_facts export_to_csv_raises)
qed

lemma party_votes_dict:
  "party_votes m k =
     (case parties m of
        None \<Rightarrow> 0
      | Some ps \<Rightarrow> (case map_of ps k of None \<Rightarrow> 0 | Some info \<Rightarrow> hlasy info))"
  by (auto simp: party_votes_def DEFAULT_VOTES_def split: option.splits)

lemma party_cell:
  assumes "distinct (map snd sp)" and "j < length sp"
  shows "map (lookup (csv_row_of sp m)) (base_columns @ map snd sp) ! (length base_columns + j) =
    CInt (party_votes m (fst (sp ! j)))"
proof -
  have "(base_columns @ map snd sp) ! (length base_columns + j) = snd (sp ! j)"
    using assms(2) by (simp add: nth_append)
  moreover have "(fst (sp ! j), snd (sp ! j)) \<in> set sp"
    using assms(2) by simp
  ultimately show ?thesis
    using assms(2) lookup_party_column [OF assms(1), of "fst (sp ! j)" "snd (sp ! j)" m]
    by (simp add: nth_append)
qed

text \<open>
  C1 (as amended). For a non-empty list of records whose party numbers are all
  accepted by \<open>int\<close>, \<open>export_to_csv\<close> passes to \<open>to_csv\<close> a table whose columns are
  the base columns followed by one column for each entry of the sorted parties; the
  party numbers of these entries are pairwise distinct and are exactly the party
  numbers of the records; there is one row for each record, with one cell for each
  column. When the party names of the columns are pairwise distinct, the cell of a
  record in a party column is the vote count of the record for that party number
  if it has one, and 0 otherwise.
\<close>

theorem flattening_schema_complete:
  assumes "ms \<noteq> []" and "\<forall>k \<in> party_ids ms. \<exists>n. py_int k = Inr n"
  shows "\<exists>sp df. sorted_parties ms = Inr sp \<and> final_dataframe ms = Inr df \<and>
     to_csv_calls (snd (export_to_csv e ms fn w)) = to_csv_calls w @ [(fn, df)] \<and>
     columns df = base_columns @ map snd sp \<and>
     distinct (map fst sp) \<and> fst ` set sp = party_ids ms \<and>
     length (data df) = length ms \<and>
     (\<forall>i < length ms. length (data df ! i) = length base_columns + length sp) \<and>
     (distinct (map snd sp) \<longrightarrow>
        (\<forall>i < length ms. \<forall>j < length sp.
           data df ! i ! (length base_columns + j) =
             CInt (case parties (ms ! i) of
                     None \<Rightarrow> 0
                   | Some ps \<Rightarrow>
                       (case map_of ps (fst (sp ! j)) of
                          None \<Rightarrow> 0
                        | Some info \<Rightarrow> hlasy info))))"
proof -
  from sorted_parties_valid [OF assms(2)] obtain sp where sp: "sorted_parties ms = Inr sp" ..
  let ?L = "base_columns @ map snd sp"
  let ?df = "\<lparr> columns = ?L, data = map (\<lambda>m. map (lookup (csv_row_of sp m)) ?L) ms \<rparr>"
  have df: "final_dataframe ms = Inr ?df"
    by (rule final_dataframe_value [OF assms(1) sp])
  have calls: "to_csv_calls (snd (export_to_csv e ms fn w)) = to_csv_calls w @ [(fn, ?df)]"
    by (rule export_to_csv_writes(2) [OF df])
  have cells: "\<forall>i < length ms. \<forall>j < length sp.
      data ?df ! i ! (length base_columns + j) =
        CInt (case parties (ms ! i) of None \<Rightarrow> 0
              | Some ps \<Rightarrow> (case map_of ps (fst (sp ! j)) of None \<Rightarrow> 0 | Some info \<Rightarrow> hlasy info))"
    if d: "distinct (map snd sp)"
    using party_cell [OF d] by (simp add: party_votes_dict)
  have "sorted_parties ms = Inr sp \<and> final_dataframe ms = Inr ?df \<and>
     to_csv_calls (snd (export_to_csv e ms fn w)) = to_csv_calls w @ [(fn, ?df)] \<and>
     columns ?df = base_columns @ map snd sp \<and>
     distinct (map fst sp) \<and> fst ` set sp = party_ids ms \<and>
     length (data ?df) = length ms \<and>
     (\<forall>i < length ms. length (data ?df ! i) = length base_columns + length sp) \<and>
     (distinct (map snd sp) \<longrightarrow>
        (\<forall>i < length ms. \<forall>j < length sp.
           data ?df ! i ! (length base_columns + j) =
             CInt (case parties (ms ! i) of None \<Rightarrow> 0
                   | Some ps \<Rightarrow> (case map_of ps (fst (sp ! j)) of None \<Rightarrow> 0
                                  | Some info \<Rightarrow> hlasy info))))"
    using sp df calls cells sorted_parties_Inr(3,4) [OF sp] by simp
  then show ?thesis by blast
qed

text \<open>
  The theorem on the records of the end-to-end example.
\<close>

theorem flattening_schema_complete_witness:
  "[m_alpha, m_bravo] \<noteq> [] \<and> party_ids [m_alpha, m_bravo] = {''1'', ''2''} \<and>
   py_int ''1'' = Inr 1 \<and> py_int ''2'' = Inr 2 \<and>
   (\<exists>df. final_dataframe [m_alpha, m_bravo] = Inr df \<and>
      columns df = base_columns @ [''PartyX'', ''PartyY''] \<and>
      data df ! 0 ! 5 = CInt 100 \<and> data df ! 0 ! 6 = CInt 50 \<and>
      data df ! 1 ! 5 = CInt 0 \<and> data df ! 1 ! 6 = CInt 30)"
proof -
  let ?ms = "[m_alpha, m_bravo]"
  have sp: "sorted_parties ?ms = Inr [(''1'', ''PartyX''), (''2'', ''PartyY'')]"
    by (simp add: export_eval m_alpha_def m_bravo_def int_eval less_eq_prod_def less_prod_def)
  have ids: "party_ids ?ms = {''1'', ''2''}"
    by (auto simp: party_ids_def m_alpha_def m_bravo_def)
  have p: "py_int ''1'' = Inr 1" "py_int ''2'' = Inr 2"
    by (simp_all add: int_eval)
  have valid: "\<forall>k \<in> party_ids ?ms. \<exists>n. py_int k = Inr n"
    by (simp add: ids p)
  from flattening_schema_complete [of ?ms env0 "''out.csv''" world0, OF _ valid]
  obtain sp' df where a: "sorted_parties ?ms = Inr sp'" "final_dataframe ?ms = Inr df"
    "columns df = base_columns @ map snd sp'"
    and cells: "distinct (map snd sp') \<longrightarrow>
        (\<forall>i < length ?ms. \<forall>j < length sp'.
           data df ! i ! (length base_columns + j) =
             CInt (case parties (?ms ! i) of None \<Rightarrow> 0
                   | Some ps \<Rightarrow> (case map_of ps (fst (sp' ! j)) of None \<Rightarrow> 0
                                  | Some info \<Rightarrow> hlasy info)))"
    by auto
  from a(1) sp have sp': "sp' = [(''1'', ''PartyX''), (''2'', ''PartyY'')]"
    by simp
  have len: "length base_columns = 5"
    by (simp add: base_columns_def)
  have c: "data df ! i ! (length base_columns + j) =
        CInt (case parties (?ms ! i) of None \<Rightarrow> 0
              | Some ps \<Rightarrow> (case map_of ps (fst (sp' ! j)) of None \<Rightarrow> 0 | Some info \<Rightarrow> hlasy info))"
    if "i < Suc (Suc 0)" and "j < Suc (Suc 0)" for i j
    using cells that by (simp add: sp')
  have "data df ! 0 ! 5 = CInt 100" "data df ! 0 ! 6 = CInt 50"
       "data df ! 1 ! 5 = CInt 0" "data df ! 1 ! 6 = CInt 30"
    using c [of 0 0] c [of 0 1] c [of 1 0] c [of 1 1]
    by (simp_all add: len sp' m_alpha_def m_bravo_def)
  with a(2,3) show ?thesis
    by (simp add: ids p sp')
qed

text \<open>
  C1 as stated fails. Two party numbers with the same name share one key of the
  row dictionary: both columns hold the votes of party 2, and the 100 votes of
  party 1 are lost. A party number that \<open>int\<close> rejects and the empty list of
  records make the export raise, so that no table exists.
\<close>

theorem flattening_counterexamples:
  "sorted_parties [m_same_name] = Inr [(''1'', ''X''), (''2'', ''X'')] \<and>
   final_dataframe [m_same_name] =
     Inr \<lparr> columns = [''code'', ''location'', ''registered'', ''envelopes'', ''valid'', ''X'', ''X''],
           data = [[CStr ''A'', CStr ''Alpha'', CInt 10, CInt 9, CInt 8, CInt 50, CInt 50]] \<rparr> \<and>
   party_votes m_same_name ''1'' = 100 \<and>
   final_dataframe [m_not_a_number] = Inl ValueError \<and>
   final_dataframe [] = Inl KeyError"
  by (simp add: sp_same_name df_same_name df_not_a_number final_dataframe_empty)
     (simp add: party_votes_def m_same_name_def)

section \<open>Properties of the orchestrator\<close>

lemma scrape_one_place_details_of:
  "scrape_one_place_details (Some page) = Inr (Some (details_of page))"
  by (simp add: scrape_one_place_details_value details_of_def)

lemma merge_details_merged: "merge_details m answer = Inr (merged m answer)"
  by (cases answer) (simp_all add: merge_details_def merged_def scrape_one_place_details_of)

lemma get_soup_from_url_fields:
  "fst (get_soup_from_url e url w) = request e (requested w) url"
  "requested (snd (get_soup_from_url e url w)) = requested w @ [url]"
  "to_csv_calls (snd (get_soup_from_url e url w)) = to_csv_calls w"
  "saved (snd (get_soup_from_url e url w)) = saved w"
  by (simp_all add: get_soup_from_url_def print_def Let_def split: option.splits)

lemma print_fields:
  "requested (print msg w) = requested w"
  "to_csv_calls (print msg w) = to_csv_calls w"
  "saved (print msg w) = saved w"
  "stdout (print msg w) = stdout w @ [msg]"
  by (simp_all add: print_def)

lemma response_Cons:
  "link m = Some url \<Longrightarrow>
   response e (history @ [url]) ms i = response e history (m # ms) (Suc i)"
  by (simp add: response_def links_def)

lemma fetch_details_value:
  assumes "list_all (\<lambda>m. link m \<noteq> None) ms"
  shows "fst (fetch_details e ms w) =
      Inr (map (\<lambda>i. merged (ms ! i) (response e (requested w) ms i)) [0..<length ms])
    \<and> requested (snd (fetch_details e ms w)) = requested w @ links ms
    \<and> to_csv_calls (snd (fetch_details e ms w)) = to_csv_calls w
    \<and> saved (snd (fetch_details e ms w)) = saved w"
  using assms
proof (induction ms arbitrary: w)
  case Nil
  then show ?case by (simp add: links_def)
next
  case (Cons m ms)
  from Cons.prems obtain url where url: "link m = Some url"
    by auto
  let ?w1 = "snd (get_soup_from_url e url w)"
  from Cons.prems have "list_all (\<lambda>m. link m \<noteq> None) ms"
    by simp
  from Cons.IH [OF this, of ?w1]
  have ih: "fst (fetch_details e ms ?w1) =
      Inr (map (\<lambda>i. merged (ms ! i) (response e (requested w @ [url]) ms i)) [0..<length ms])"
    "requested (snd (fetch_details e ms ?w1)) = requested w @ [url] @ links ms"
    "to_csv_calls (snd (fetch_details e ms ?w1)) = to_csv_calls w"
    "saved (snd (fetch_details e ms ?w1)) = saved w"
    by (simp_all add: get_soup_from_url_fields)
  have first: "merged m (fst (get_soup_from_url e url w)) =
      merged ((m # ms) ! 0) (response e (requested w) (m # ms) 0)"
    by (simp add: get_soup_from_url_fields response_def links_def url)
  have rest: "map (\<lambda>i. merged (ms ! i) (response e (requested w @ [url]) ms i)) [0..<length ms] =
      map (\<lambda>i. merged ((m # ms) ! Suc i) (response e (requested w) (m # ms) (Suc i)))
        [0..<length ms]"
    by (simp add: response_Cons [OF url])
  have l: "links (m # ms) = url # links ms"
    by (simp add: links_def url)
  obtain r w2 where f: "fetch_details e ms ?w1 = (r, w2)"
    by (cases "fetch_details e ms ?w1")
  with ih have r: "r = Inr (map (\<lambda>i. merged (ms ! i) (response e (requested w @ [url]) ms i))
      [0..<length ms])"
    and w2: "requested w2 = requested w @ [url] @ links ms" "to_csv_calls w2 = to_csv_calls w"
      "saved w2 = saved w"
    by simp_all
  have "fetch_details e (m # ms) w =
      (Inr (merged m (fst (get_soup_from_url e url w)) #
         map (\<lambda>i. merged (ms ! i) (response e (requested w @ [url]) ms i)) [0..<length ms]), w2)"
    by (simp add: url merge_details_merged f r case_prod_beta)
  then show ?case
    by (simp add: first rest l w2 map_upt_Suc del: upt_Suc)
qed

lemma scrape_row_stubs:
  "scrape_row e base_url acc row = Inr acc' \<Longrightarrow> list_all is_stub acc \<Longrightarrow> list_all is_stub acc'"
  by (auto simp: scrape_row_complete stub_of_def is_stub_def split: if_splits sum.splits)

lemma scrape_rows_stubs:
  "scrape_rows e base_url rows acc = Inr ms \<Longrightarrow> list_all is_stub acc \<Longrightarrow> list_all is_stub ms"
proof (induction rows arbitrary: acc)
  case Nil
  then show ?case by simp
next
  case (Cons row rows)
  from Cons.prems(1) obtain acc' where a: "scrape_row e base_url acc row = Inr acc'"
    and r: "scrape_rows e base_url rows acc' = Inr ms"
    by (auto split: sum.splits)
  from scrape_row_stubs [OF a Cons.prems(2)] have "list_all is_stub acc'" .
  with r show ?case by (rule Cons.IH)
qed

lemma scrape_municipalities_list_Inr:
  assumes "fst (scrape_municipalities_list e page url w) = Inr ms"
  shows "scrape_municipalities_list e page url w' = (Inr ms, print (MsgFound (length ms)) w')"
    and "list_all is_stub ms"
proof -
  from assms have r: "scrape_rows e url (table_rows page) [] = Inr ms"
    by (simp add: scrape_municipalities_list_def split: sum.splits)
  then show "scrape_municipalities_list e page url w' =
      (Inr ms, print (MsgFound (length ms)) w')"
    by (simp add: scrape_municipalities_list_def)
  from scrape_rows_stubs [OF r] show "list_all is_stub ms"
    by simp
qed

lemma stub_fields:
  assumes "list_all is_stub ms" and "i < length ms"
  shows "\<exists>c n u. ms ! i =
    \<lparr> code = Some c, location = Some n, link = Some u, registered = None,
      envelopes = None, valid = None, parties = None \<rparr>"
proof -
  from assms have st: "is_stub (ms ! i)"
    by (simp add: list_all_length)
  then obtain c n u where "code (ms ! i) = Some c" "location (ms ! i) = Some n"
    "link (ms ! i) = Some u"
    by (auto simp: is_stub_def)
  with st have "ms ! i =
      \<lparr> code = Some c, location = Some n, link = Some u, registered = None,
        envelopes = None, valid = None, parties = None \<rparr>"
    by (simp add: is_stub_def)
  then show ?thesis by blast
qed

lemma main_run:
  assumes page: "request e (requested w) url = Some page"
    and ms: "fst (scrape_municipalities_list e page url w) = Inr ms"
    and ne: "ms \<noteq> []"
    and ms': "ms' = map (\<lambda>i. merged (ms ! i) (response e (requested w @ [url]) ms i))
                      [0..<length ms]"
  shows "\<exists>w7. main e url fn w =
        (case export_to_csv e ms' fn w7 of
           (None, w8) \<Rightarrow> (None, print MsgProgramDone w8)
         | (Some err, w8) \<Rightarrow> (Some err, w8))
      \<and> requested w7 = requested w @ url # links ms
      \<and> to_csv_calls w7 = to_csv_calls w \<and> saved w7 = saved w"
proof -
  let ?w1 = "print MsgDownloadingMain w"
  obtain w2 where g: "get_soup_from_url e url ?w1 = (Some page, w2)"
    using page by (simp add: get_soup_from_url_def print_def Let_def)
  have w2: "requested w2 = requested w @ [url]" "to_csv_calls w2 = to_csv_calls w"
    "saved w2 = saved w"
    using get_soup_from_url_fields(2-4) [of e url ?w1] by (simp_all add: g print_fields)
  let ?w3 = "print MsgGettingList w2"
  define w4 where "w4 = print (MsgFound (length ms)) ?w3"
  have s: "scrape_municipalities_list e page url ?w3 = (Inr ms, w4)"
    unfolding w4_def by (rule scrape_municipalities_list_Inr(1) [OF ms])
  have w4: "requested w4 = requested w @ [url]" "to_csv_calls w4 = to_csv_calls w"
    "saved w4 = saved w"
    by (simp_all add: w4_def print_fields w2)
  let ?w5 = "print MsgStartingDetails w4"
  have links: "list_all (\<lambda>m. link m \<noteq> None) ms"
    using scrape_municipalities_list_Inr(2) [OF ms] by (simp add: list_all_iff is_stub_def)
  obtain r w6 where f: "fetch_details e ms ?w5 = (r, w6)"
    by (cases "fetch_details e ms ?w5")
  from fetch_details_value [OF links, of e ?w5]
  have r: "r = Inr ms'"
    and w6: "requested w6 = requested w @ url # links ms" "to_csv_calls w6 = to_csv_calls w"
      "saved w6 = saved w"
    by (simp_all add: f print_fields w4 ms')
  let ?w7 = "print MsgDetailsDone w6"
  have "main e url fn w =
        (case export_to_csv e ms' fn ?w7 of
           (None, w8) \<Rightarrow> (None, print MsgProgramDone w8)
         | (Some err, w8) \<Rightarrow> (Some err, w8))"
    using ne by (simp add: main_def g s f r split: prod.splits option.splits)
  then show ?thesis
    using w6 by (auto simp: print_fields)
qed

text \<open>
  C8. When the listing page is downloaded and no stub is extracted from it, \<open>main\<close>
  returns without an exception after its message that no municipality was found:
  the only request of the run is the one for the listing page, \<open>to_csv\<close> is not
  called and nothing is saved.
\<close>

theorem no_municipalities_stops:
  assumes "request e (requested w) url = Some page"
    and "fst (scrape_municipalities_list e page url w) = Inr []"
  shows "fst (main e url fn w) = None
    \<and> requested (snd (main e url fn w)) = requested w @ [url]
    \<and> to_csv_calls (snd (main e url fn w)) = to_csv_calls w
    \<and> saved (snd (main e url fn w)) = saved w
    \<and> stdout (snd (main e url fn w)) =
        stdout w @ [MsgDownloadingMain, MsgGettingList, MsgFound 0, MsgNoMunicipalities]"
proof -
  have "scrape_municipalities_list e page url w' = (Inr [], print (MsgFound 0) w')" for w'
    using scrape_municipalities_list_Inr(1) [OF assms(2), of w'] by simp
  then show ?thesis
    using assms(1)
    by (simp add: main_def get_soup_from_url_def Let_def print_def)
qed

text \<open>
  The theorem on a listing whose rows are all deficient.
\<close>

theorem no_municipalities_stops_witness:
  "request env_bad (requested world0) ''u/'' = Some listing_bad \<and>
   fst (scrape_municipalities_list env_bad listing_bad ''u/'' world0) = Inr [] \<and>
   fst (main env_bad ''u/'' ''out.csv'' world0) = None \<and>
   requested (snd (main env_bad ''u/'' ''out.csv'' world0)) = [''u/''] \<and>
   to_csv_calls (snd (main env_bad ''u/'' ''out.csv'' world0)) = []"
proof -
  have a: "request env_bad (requested world0) ''u/'' = Some listing_bad"
    by (simp add: env_bad_def)
  have b: "fst (scrape_municipalities_list env_bad listing_bad ''u/'' world0) = Inr []"
    by (simp add: scrape_municipalities_list_def listing_bad_def scrape_row_def)
  from no_municipalities_stops [OF a b, of "''out.csv''"] a b show ?thesis
    by (simp add: world0_def)
qed

lemma stubs1:
  "fst (scrape_municipalities_list env1 listing0 ''u/'' w) = Inr [stub_alfa, stub_beta]"
  "fst (scrape_municipalities_list env_read_only listing0 ''u/'' w) =
     Inr [stub_alfa, stub_beta]"
  by (simp_all add: scrape_municipalities_list_def listing0_def scrape_row_def env1_def
      env_read_only_def stub_alfa_def stub_beta_def)

lemma details_of_page0:
  "details_of page0 = \<lparr> code = None, location = None, link = None, registered = Some 1234,
     envelopes = Some 0, valid = Some 0, parties = Some [(''1'', \<lparr>nazev = ''B'', hlasy = 7\<rparr>)] \<rparr>"
proof -
  have v: "votes_of ''1 234'' = 1234" "votes_of ''x'' = 0" "votes_of ''7'' = 7"
    "votes_of ''10'' = 10"
    by (simp_all add: votes_of_def clean_eval)
  show ?thesis
    by (simp add: details_of_def field_value_def row_step_def page0_def data_rows_def
        name_kept_def info_of_def v)
qed

lemma responses1:
  "response env1 [''u/''] [stub_alfa, stub_beta] 0 = None"
  "response env1 [''u/''] [stub_alfa, stub_beta] (Suc 0) = Some page0"
  "response env_read_only [''u/''] [stub_alfa, stub_beta] 0 = None"
  "response env_read_only [''u/''] [stub_alfa, stub_beta] (Suc 0) = Some page0"
  by (simp_all add: response_def links_def stub_alfa_def stub_beta_def env1_def
      env_read_only_def web1_def)

lemma merged1:
  "map (\<lambda>i. merged ([stub_alfa, stub_beta] ! i) (response env1 [''u/''] [stub_alfa, stub_beta] i))
     [0..<length [stub_alfa, stub_beta]] = [stub_alfa, record_beta]"
  "map (\<lambda>i. merged ([stub_alfa, stub_beta] ! i)
              (response env_read_only [''u/''] [stub_alfa, stub_beta] i))
     [0..<length [stub_alfa, stub_beta]] = [stub_alfa, record_beta]"
proof -
  have "merged stub_beta (Some page0) = record_beta"
    by (simp add: merged_def details_of_page0 dict_update_def stub_beta_def record_beta_def)
  moreover have "[0..<length [stub_alfa, stub_beta]] = [0, 1]"
    by (simp add: upt_rec)
  ultimately show
    "map (\<lambda>i. merged ([stub_alfa, stub_beta] ! i)
                (response env1 [''u/''] [stub_alfa, stub_beta] i))
       [0..<length [stub_alfa, stub_beta]] = [stub_alfa, record_beta]"
    "map (\<lambda>i. merged ([stub_alfa, stub_beta] ! i)
                (response env_read_only [''u/''] [stub_alfa, stub_beta] i))
       [0..<length [stub_alfa, stub_beta]] = [stub_alfa, record_beta]"
    by (simp_all add: responses1 merged_def)
qed

lemma sp1: "sorted_parties [stub_alfa, record_beta] = Inr [(''1'', ''B'')]"
  by (simp add: export_eval stub_alfa_def record_beta_def int_eval)

lemma df1: "final_dataframe [stub_alfa, record_beta] = Inr table1"
  by (simp add: final_dataframe_def sp1)
     (simp add: export_eval stub_alfa_def record_beta_def table1_def)

lemma all_parties_append:
  "all_parties (xs @ ys) acc = all_parties ys (all_parties xs acc)"
  by (induction xs arbitrary: acc) simp_all

lemma sorted_parties_without:
  assumes "parties m = None"
  shows "sorted_parties (xs @ m # ys) = sorted_parties (xs @ ys)"
  using assms by (simp add: sorted_parties_def all_parties_append)

lemma export_to_csv_requested:
  "requested (snd (export_to_csv e ms fn w)) = requested w"
  by (cases "final_dataframe ms")
    (simp_all add: export_to_csv_raises export_to_csv_writes(3) print_fields)

lemma failed_row:
  assumes "m = \<lparr> code = Some c, location = Some n, link = Some u, registered = None,
      envelopes = None, valid = None, parties = None \<rparr>"
    and "snd ` set sp \<inter> set base_columns = {}"
  shows "map (lookup (csv_row_of sp m)) (base_columns @ map snd sp) =
    [CStr c, CStr n, CStr ''N/A'', CStr ''N/A'', CStr ''N/A''] @ replicate (length sp) (CInt 0)"
proof -
  have p: "parties m = None"
    by (simp add: assms(1))
  have "lookup (csv_row_of sp m) col = dict_get m col" if "col \<in> set base_columns" for col
    using that assms(2) by (intro lookup_base_column) auto
  then have "map (lookup (csv_row_of sp m)) base_columns = map (dict_get m) base_columns"
    by simp
  also have "\<dots> = [CStr c, CStr n, CStr ''N/A'', CStr ''N/A'', CStr ''N/A'']"
    by (simp add: assms(1) base_columns_def dict_get_def CODE_COLUMN_def LOCATION_COLUMN_def
        REGISTERED_COLUMN_def ENVELOPES_COLUMN_def VALID_COLUMN_def DEFAULT_VALUE_def)
  finally have base: "map (lookup (csv_row_of sp m)) base_columns =
      [CStr c, CStr n, CStr ''N/A'', CStr ''N/A'', CStr ''N/A'']" .
  have "lookup (csv_row_of sp m) (snd x) = CInt 0" if "x \<in> set sp" for x
    using lookup_absent_party_column [OF p, of "fst x" "snd x" sp] that by simp
  then have "map (lookup (csv_row_of sp m)) (map snd sp) = replicate (length sp) (CInt 0)"
    by (simp add: map_replicate_const [symmetric] comp_def)
  with base show ?thesis
    by (simp only: map_append)
qed

lemma remove_nth_map: "take i (map f xs) @ drop (Suc i) (map f xs) =
    map f (take i xs @ drop (Suc i) xs)"
  by (simp add: take_map drop_map)

lemma party_ids_without:
  assumes "parties m = None"
  shows "party_ids (xs @ m # ys) = party_ids (xs @ ys)"
  using assms by (simp add: party_ids_def)

lemma main_outcome:
  assumes "main e url fn w =
        (case export_to_csv e ms' fn w7 of
           (None, w8) \<Rightarrow> (None, print MsgProgramDone w8)
         | (Some err, w8) \<Rightarrow> (Some err, w8))"
  shows "fst (main e url fn w) = fst (export_to_csv e ms' fn w7)"
    and "requested (snd (main e url fn w)) = requested (snd (export_to_csv e ms' fn w7))"
    and "to_csv_calls (snd (main e url fn w)) = to_csv_calls (snd (export_to_csv e ms' fn w7))"
    and "saved (snd (main e url fn w)) = saved (snd (export_to_csv e ms' fn w7))"
  using assms by (auto simp: print_fields split: prod.splits option.splits)

text \<open>
  C3 (as amended). In a run in which the download of the detail page of the
  municipality at index \<open>i\<close> fails, every detail page is still requested, the
  record of that municipality stays the stub of the listing, and it adds no party
  number and no party column. When \<open>int\<close> accepts every party number of the other
  municipalities, the table is built and \<open>main\<close> passes it to \<open>to_csv\<close>; \<open>main\<close>
  returns without an exception unless \<open>to_csv\<close> raises one that is not an
  \<open>IOError\<close>; and, with more than one municipality, the table of the other records
  alone is the same table without the row of the failed one. When in addition no
  party name is the name of a base column, the row of the failed municipality is
  its code, its name, the string \<open>"N/A"\<close> in the registered, envelopes and valid
  cells, and 0 in every party column.
\<close>

theorem detail_failure_absorbed:
  assumes page: "request e (requested w) url = Some page"
    and ms: "fst (scrape_municipalities_list e page url w) = Inr ms"
    and i: "i < length ms"
    and fail: "response e (requested w @ [url]) ms i = None"
    and ms': "ms' = map (\<lambda>j. merged (ms ! j) (response e (requested w @ [url]) ms j))
                      [0..<length ms]"
  shows "requested (snd (main e url fn w)) = requested w @ url # links ms
    \<and> length ms' = length ms
    \<and> ms' ! i = ms ! i
    \<and> party_ids ms' = party_ids (take i ms' @ drop (Suc i) ms')
    \<and> sorted_parties ms' = sorted_parties (take i ms' @ drop (Suc i) ms')
    \<and> ((\<forall>k \<in> party_ids (take i ms' @ drop (Suc i) ms'). \<exists>n. py_int k = Inr n) \<longrightarrow>
         (\<exists>sp df. sorted_parties ms' = Inr sp \<and> final_dataframe ms' = Inr df
            \<and> to_csv_calls (snd (main e url fn w)) = to_csv_calls w @ [(fn, df)]
            \<and> fst (main e url fn w) =
                (case to_csv e fn df of
                   None \<Rightarrow> None
                 | Some err \<Rightarrow> if err = IOError then None else Some err)
            \<and> (1 < length ms \<longrightarrow>
                  final_dataframe (take i ms' @ drop (Suc i) ms') =
                    Inr \<lparr> columns = columns df,
                          data = take i (data df) @ drop (Suc i) (data df) \<rparr>)
            \<and> (snd ` set sp \<inter> set base_columns = {} \<longrightarrow>
                  (\<exists>c n. code (ms ! i) = Some c \<and> location (ms ! i) = Some n \<and>
                     data df ! i =
                       [CStr c, CStr n, CStr ''N/A'', CStr ''N/A'', CStr ''N/A''] @
                       replicate (length sp) (CInt 0)))))"
proof -
  have ne: "ms \<noteq> []"
    using i by auto
  have len: "length ms' = length ms"
    by (simp add: ms')
  have same: "ms' ! i = ms ! i"
    using i fail by (simp add: ms' merged_def)
  from stub_fields [OF scrape_municipalities_list_Inr(2) [OF ms] i] obtain c n u where
    stub: "ms ! i = \<lparr> code = Some c, location = Some n, link = Some u, registered = None,
      envelopes = None, valid = None, parties = None \<rparr>"
    by blast
  let ?rest = "take i ms' @ drop (Suc i) ms'"
  have split: "ms' = take i ms' @ ms' ! i # drop (Suc i) ms'"
    using i len by (simp add: id_take_nth_drop [symmetric])
  have none: "parties (ms' ! i) = None"
    by (simp add: same stub)
  from sorted_parties_without [OF none, of "take i ms'" "drop (Suc i) ms'"] split
  have sp_eq: "sorted_parties ms' = sorted_parties ?rest"
    by simp
  from party_ids_without [OF none, of "take i ms'" "drop (Suc i) ms'"] split
  have ids_eq: "party_ids ms' = party_ids ?rest"
    by simp
  from main_run [OF page ms ne ms', of fn] obtain w7 where
    run: "main e url fn w =
        (case export_to_csv e ms' fn w7 of
           (None, w8) \<Rightarrow> (None, print MsgProgramDone w8)
         | (Some err, w8) \<Rightarrow> (Some err, w8))"
    and w7: "requested w7 = requested w @ url # links ms" "to_csv_calls w7 = to_csv_calls w"
    by blast
  note out = main_outcome [OF run]
  have req: "requested (snd (main e url fn w)) = requested w @ url # links ms"
    by (simp add: out(2) export_to_csv_requested w7)
  have ne': "ms' \<noteq> []"
    using ne len by auto
  have built: "\<exists>sp df. sorted_parties ms' = Inr sp \<and> final_dataframe ms' = Inr df
      \<and> to_csv_calls (snd (main e url fn w)) = to_csv_calls w @ [(fn, df)]
      \<and> fst (main e url fn w) =
          (case to_csv e fn df of
             None \<Rightarrow> None
           | Some err \<Rightarrow> if err = IOError then None else Some err)
      \<and> (1 < length ms \<longrightarrow>
            final_dataframe ?rest =
              Inr \<lparr> columns = columns df,
                    data = take i (data df) @ drop (Suc i) (data df) \<rparr>)
      \<and> (snd ` set sp \<inter> set base_columns = {} \<longrightarrow>
            (\<exists>c n. code (ms ! i) = Some c \<and> location (ms ! i) = Some n \<and>
               data df ! i =
                 [CStr c, CStr n, CStr ''N/A'', CStr ''N/A'', CStr ''N/A''] @
                 replicate (length sp) (CInt 0)))"
    if valid: "\<forall>k \<in> party_ids ?rest. \<exists>n. py_int k = Inr n"
  proof -
    from valid have "\<forall>k \<in> party_ids ms'. \<exists>n. py_int k = Inr n"
      by (simp only: ids_eq)
    from sorted_parties_valid [OF this] obtain sp where sp: "sorted_parties ms' = Inr sp" ..
    let ?L = "base_columns @ map snd sp"
    let ?df = "\<lparr> columns = ?L, data = map (\<lambda>m. map (lookup (csv_row_of sp m)) ?L) ms' \<rparr>"
    have df: "final_dataframe ms' = Inr ?df"
      by (rule final_dataframe_value [OF ne' sp])
    have calls: "to_csv_calls (snd (main e url fn w)) = to_csv_calls w @ [(fn, ?df)]"
      by (simp add: out(3) export_to_csv_writes(2) [OF df] w7)
    have outcome: "fst (main e url fn w) =
        (case to_csv e fn ?df of
           None \<Rightarrow> None
         | Some err \<Rightarrow> if err = IOError then None else Some err)"
      by (simp only: out(1) export_to_csv_writes(1) [OF df])
    have others: "final_dataframe ?rest =
        Inr \<lparr> columns = columns ?df, data = take i (data ?df) @ drop (Suc i) (data ?df) \<rparr>"
      if several: "1 < length ms"
    proof -
      have "length ?rest = length ms - 1"
        using i len by simp
      then have rest_ne: "?rest \<noteq> []"
        using several by (metis length_0_conv less_numeral_extra(3) zero_less_diff)
      have sp': "sorted_parties ?rest = Inr sp"
        using sp sp_eq by simp
      show ?thesis
        by (simp add: final_dataframe_value [OF rest_ne sp'] remove_nth_map)
    qed
    have row: "\<exists>c n. code (ms ! i) = Some c \<and> location (ms ! i) = Some n \<and>
        data ?df ! i = [CStr c, CStr n, CStr ''N/A'', CStr ''N/A'', CStr ''N/A''] @
          replicate (length sp) (CInt 0)"
      if disjoint: "snd ` set sp \<inter> set base_columns = {}"
    proof -
      have "data ?df ! i = map (lookup (csv_row_of sp (ms ! i))) ?L"
        using i len by (simp add: same)
      with failed_row [OF stub disjoint] show ?thesis
        by (simp add: stub)
    qed
    from sp df calls outcome others row show ?thesis
      by blast
  qed
  from req len same ids_eq sp_eq built show ?thesis
    by blast
qed

lemma run1_facts:
  "request env1 (requested world0) ''u/'' = Some listing0"
  "request env_read_only (requested world0) ''u/'' = Some listing0"
  "requested world0 @ [''u/''] = [''u/'']"
  "to_csv_calls world0 = []" "saved world0 = []" "stdout world0 = []"
  by (simp_all add: env1_def env_read_only_def web1_def world0_def)

lemma run1_normal:
  "requested world0 = []"
  "request env1 [] ''u/'' = Some listing0"
  "request env_read_only [] ''u/'' = Some listing0"
  "to_csv_calls world0 = []" "saved world0 = []"
  "to_csv env1 name df = None" "to_csv env_read_only name df = Some IOError"
  by (simp_all add: env1_def env_read_only_def web1_def world0_def)

lemma ids1:
  "party_ids [record_beta] = {''1''}" "py_int ''1'' = Inr 1"
  "snd ` set [(''1'', ''B'')] \<inter> set base_columns = {}"
  by (simp_all add: party_ids_def record_beta_def int_eval base_columns_def CODE_COLUMN_def
      LOCATION_COLUMN_def REGISTERED_COLUMN_def ENVELOPES_COLUMN_def VALID_COLUMN_def)

text \<open>
  The theorem on a run over two municipalities, the first download failing.
\<close>

theorem detail_failure_absorbed_witness:
  "request env1 (requested world0) ''u/'' = Some listing0 \<and>
   fst (scrape_municipalities_list env1 listing0 ''u/'' world0) = Inr [stub_alfa, stub_beta] \<and>
   response env1 (requested world0 @ [''u/'']) [stub_alfa, stub_beta] 0 = None \<and>
   party_ids [record_beta] = {''1''} \<and> py_int ''1'' = Inr 1 \<and>
   requested (snd (main env1 ''u/'' ''out.csv'' world0)) =
     [''u/'', ''u/ps311?obec=1'', ''u/ps311?obec=2''] \<and>
   sorted_parties [stub_alfa, record_beta] = sorted_parties [record_beta] \<and>
   fst (main env1 ''u/'' ''out.csv'' world0) = None \<and>
   to_csv_calls (snd (main env1 ''u/'' ''out.csv'' world0)) = [(''out.csv'', table1)] \<and>
   final_dataframe [record_beta] =
     Inr \<lparr> columns = columns table1, data = [[CStr ''589268'', CStr ''Beta'', CInt 1234, CInt 0,
       CInt 0, CInt 7]] \<rparr>"
proof -
  let ?ms = "[stub_alfa, stub_beta]"
  have fail: "response env1 (requested world0 @ [''u/'']) ?ms 0 = None"
    by (simp add: run1_facts responses1)
  have ms': "[stub_alfa, record_beta] =
      map (\<lambda>j. merged (?ms ! j) (response env1 (requested world0 @ [''u/'']) ?ms j))
        [0..<length ?ms]"
    by (simp only: run1_facts(3) merged1)
  have l: "links ?ms = [''u/ps311?obec=1'', ''u/ps311?obec=2'']"
    by (simp add: links_def stub_alfa_def stub_beta_def)
  from detail_failure_absorbed [OF run1_facts(1) stubs1(1) _ fail ms', of "''out.csv''"]
  show ?thesis
    by (simp add: stubs1 responses1 run1_normal ids1 l sp1 df1 table1_def)
qed

lemma run_with:
  "\<exists>w7. main (env_with p outcome) ''u/'' fn world0 =
        (case export_to_csv (env_with p outcome) [stub_alfa, merged stub_beta (Some p)] fn w7 of
           (None, w8) \<Rightarrow> (None, print MsgProgramDone w8)
         | (Some err, w8) \<Rightarrow> (Some err, w8))
      \<and> to_csv_calls w7 = []"
proof -
  let ?e = "env_with p outcome"
  let ?ms = "[stub_alfa, stub_beta]"
  have page: "request ?e (requested world0) ''u/'' = Some listing0"
    by (simp add: env_with_def web_with_def)
  have ms: "fst (scrape_municipalities_list ?e listing0 ''u/'' world0) = Inr ?ms"
    by (simp add: scrape_municipalities_list_def listing0_def scrape_row_def env_with_def
        stub_alfa_def stub_beta_def)
  have r: "response ?e [''u/''] ?ms 0 = None" "response ?e [''u/''] ?ms (Suc 0) = Some p"
    by (simp_all add: response_def links_def stub_alfa_def stub_beta_def env_with_def
        web_with_def)
  have "[0..<length ?ms] = [0, Suc 0]"
    by (simp add: upt_rec)
  then have ms': "[stub_alfa, merged stub_beta (Some p)] =
      map (\<lambda>j. merged (?ms ! j) (response ?e (requested world0 @ [''u/'']) ?ms j))
        [0..<length ?ms]"
    by (simp add: r run1_normal(1)) (simp add: merged_def)
  from main_run [OF page ms _ ms', of fn] show ?thesis
    by (auto simp: run1_normal)
qed

lemma merged_examples:
  "merged stub_beta (Some page_registered) = record_registered"
  "merged stub_beta (Some page_bad_id) = record_bad_id"
  "merged stub_beta (Some page0) = record_beta"
proof -
  have v: "votes_of ''1 234'' = 1234" "votes_of ''7'' = 7"
    by (simp_all add: votes_of_def clean_eval)
  show "merged stub_beta (Some page_registered) = record_registered"
    by (simp add: merged_def details_of_def field_value_def row_step_def page_registered_def
        data_rows_def name_kept_def info_of_def v dict_update_def stub_beta_def
        record_registered_def)
  show "merged stub_beta (Some page_bad_id) = record_bad_id"
    by (simp add: merged_def details_of_def field_value_def row_step_def page_bad_id_def
        data_rows_def name_kept_def info_of_def v dict_update_def stub_beta_def
        record_bad_id_def)
  show "merged stub_beta (Some page0) = record_beta"
    by (simp add: merged_def details_of_page0 dict_update_def stub_beta_def record_beta_def)
qed

lemma df_registered: "final_dataframe [stub_alfa, record_registered] = Inr table_registered"
proof -
  have "sorted_parties [stub_alfa, record_registered] = Inr [(''1'', ''registered'')]"
    by (simp add: export_eval stub_alfa_def record_registered_def int_eval)
  then show ?thesis
    by (simp add: final_dataframe_def)
      (simp add: export_eval stub_alfa_def record_registered_def table_registered_def)
qed

lemma df_bad_id: "final_dataframe [stub_alfa, record_bad_id] = Inl ValueError"
  by (simp add: export_eval stub_alfa_def record_bad_id_def int_eval)

lemma run_registered:
  "to_csv_calls (snd (main (env_with page_registered None) ''u/'' ''out.csv'' world0)) =
     [(''out.csv'', table_registered)]"
proof -
  from run_with [of page_registered None "''out.csv''"] obtain w7 where
    run: "main (env_with page_registered None) ''u/'' ''out.csv'' world0 =
        (case export_to_csv (env_with page_registered None) [stub_alfa, record_registered]
                ''out.csv'' w7 of
           (None, w8) \<Rightarrow> (None, print MsgProgramDone w8)
         | (Some err, w8) \<Rightarrow> (Some err, w8))"
    and w7: "to_csv_calls w7 = []"
    by (auto simp: merged_examples)
  show ?thesis
    by (simp add: main_outcome(3) [OF run] export_to_csv_writes(2) [OF df_registered] w7)
qed

lemma run_bad_id:
  "fst (main (env_with page_bad_id None) ''u/'' ''out.csv'' world0) = Some ValueError"
  "to_csv_calls (snd (main (env_with page_bad_id None) ''u/'' ''out.csv'' world0)) = []"
proof -
  from run_with [of page_bad_id None "''out.csv''"] obtain w7 where
    run: "main (env_with page_bad_id None) ''u/'' ''out.csv'' world0 =
        (case export_to_csv (env_with page_bad_id None) [stub_alfa, record_bad_id]
                ''out.csv'' w7 of
           (None, w8) \<Rightarrow> (None, print MsgProgramDone w8)
         | (Some err, w8) \<Rightarrow> (Some err, w8))"
    and w7: "to_csv_calls w7 = []"
    by (auto simp: merged_examples)
  show "fst (main (env_with page_bad_id None) ''u/'' ''out.csv'' world0) = Some ValueError"
    by (simp add: main_outcome(1) [OF run] export_to_csv_raises [OF df_bad_id])
  show "to_csv_calls (snd (main (env_with page_bad_id None) ''u/'' ''out.csv'' world0)) = []"
    by (simp add: main_outcome(3) [OF run] export_to_csv_raises [OF df_bad_id] print_fields w7)
qed

lemma to_csv_env_with: "to_csv (env_with p outcome) name df = outcome"
  by (simp add: env_with_def)

lemma run_refused_name:
  "fst (main (env_with page0 (Some ValueError)) ''u/'' ''out.csv'' world0) = Some ValueError"
proof -
  from run_with [of page0 "Some ValueError" "''out.csv''"] obtain w7 where
    run: "main (env_with page0 (Some ValueError)) ''u/'' ''out.csv'' world0 =
        (case export_to_csv (env_with page0 (Some ValueError)) [stub_alfa, record_beta]
                ''out.csv'' w7 of
           (None, w8) \<Rightarrow> (None, print MsgProgramDone w8)
         | (Some err, w8) \<Rightarrow> (Some err, w8))"
    by (auto simp: merged_examples)
  show ?thesis
    by (simp add: main_outcome(1) [OF run] export_to_csv_writes(1) [OF df1] to_csv_env_with)
qed

text \<open>
  C3 as stated fails: in that run the registered, envelopes and valid cells of the
  failed municipality hold the string \<open>"N/A"\<close>, not zero. When the other
  municipality has a party named \<open>"registered"\<close>, the registered cell of the failed
  municipality is the number 0 of that party column; when it has the party number
  \<open>"1a"\<close>, the run ends with \<open>ValueError\<close> and \<open>to_csv\<close> is not called; and when
  \<open>to_csv\<close> raises \<open>ValueError\<close>, so does \<open>main\<close>.
\<close>

theorem failed_detail_row_not_zero:
  "response env1 (requested world0 @ [''u/'']) [stub_alfa, stub_beta] 0 = None \<and>
   fst (scrape_municipalities_list env1 listing0 ''u/'' world0) = Inr [stub_alfa, stub_beta] \<and>
   to_csv_calls (snd (main env1 ''u/'' ''out.csv'' world0)) = [(''out.csv'', table1)] \<and>
   data table1 ! 0 =
     [CStr ''506761'', CStr ''Alfa'', CStr ''N/A'', CStr ''N/A'', CStr ''N/A'', CInt 0] \<and>
   to_csv_calls (snd (main (env_with page_registered None) ''u/'' ''out.csv'' world0)) =
     [(''out.csv'', table_registered)] \<and>
   data table_registered ! 0 =
     [CStr ''506761'', CStr ''Alfa'', CInt 0, CStr ''N/A'', CStr ''N/A'', CInt 0] \<and>
   fst (main (env_with page_bad_id None) ''u/'' ''out.csv'' world0) = Some ValueError \<and>
   to_csv_calls (snd (main (env_with page_bad_id None) ''u/'' ''out.csv'' world0)) = [] \<and>
   fst (main (env_with page0 (Some ValueError)) ''u/'' ''out.csv'' world0) = Some ValueError"
proof -
  let ?ms = "[stub_alfa, stub_beta]"
  have ms': "[stub_alfa, record_beta] =
      map (\<lambda>j. merged (?ms ! j) (response env1 (requested world0 @ [''u/'']) ?ms j))
        [0..<length ?ms]"
    by (simp only: run1_facts(3) merged1)
  from main_run [OF run1_facts(1) stubs1(1) _ ms', of "''out.csv''"] obtain w7 where
    run: "main env1 ''u/'' ''out.csv'' world0 =
        (case export_to_csv env1 [stub_alfa, record_beta] ''out.csv'' w7 of
           (None, w8) \<Rightarrow> (None, print MsgProgramDone w8)
         | (Some err, w8) \<Rightarrow> (Some err, w8))"
    and w7: "to_csv_calls w7 = to_csv_calls world0"
    by auto
  have "to_csv_calls (snd (main env1 ''u/'' ''out.csv'' world0)) = [(''out.csv'', table1)]"
    by (simp add: main_outcome(3) [OF run] export_to_csv_writes(2) [OF df1] w7 run1_facts)
  then show ?thesis
    by (simp add: stubs1 run1_facts responses1 table1_def run_registered run_bad_id
        run_refused_name table_registered_def)
qed

text \<open>
  C9. In a run that reaches the export and in which \<open>to_csv\<close> raises \<open>IOError\<close>:
  \<open>to_csv\<close> is called once, nothing is saved, \<open>export_to_csv\<close> prints its error
  message and not its message of success, and \<open>main\<close> returns without an
  exception. The last message of the run is nevertheless \<open>MsgProgramDone\<close>, the
  message that the program completed successfully.
\<close>

theorem write_failure_then_program_done:
  assumes page: "request e (requested w) url = Some page"
    and ms: "fst (scrape_municipalities_list e page url w) = Inr ms"
    and ne: "ms \<noteq> []"
    and ms': "ms' = map (\<lambda>j. merged (ms ! j) (response e (requested w @ [url]) ms j))
                      [0..<length ms]"
    and df: "final_dataframe ms' = Inr df"
    and fail: "to_csv e fn df = Some IOError"
  shows "fst (main e url fn w) = None
    \<and> to_csv_calls (snd (main e url fn w)) = to_csv_calls w @ [(fn, df)]
    \<and> saved (snd (main e url fn w)) = saved w
    \<and> (\<exists>out. stdout (snd (main e url fn w)) =
          out @ [MsgExporting fn, MsgWriteError, MsgProgramDone])"
proof -
  from main_run [OF page ms ne ms', of fn] obtain w7 where
    run: "main e url fn w =
        (case export_to_csv e ms' fn w7 of
           (None, w8) \<Rightarrow> (None, print MsgProgramDone w8)
         | (Some err, w8) \<Rightarrow> (Some err, w8))"
    and w7: "to_csv_calls w7 = to_csv_calls w" "saved w7 = saved w"
    by blast
  obtain w8 where x: "export_to_csv e ms' fn w7 = (None, w8)"
    using export_to_csv_writes(1) [OF df, of e fn w7] fail
    by (cases "export_to_csv e ms' fn w7") simp
  from export_to_csv_writes(2,4,5) [OF df, of e fn w7] fail
  have w8: "to_csv_calls w8 = to_csv_calls w @ [(fn, df)]" "saved w8 = saved w"
    "stdout w8 = stdout w7 @ [MsgExporting fn, MsgWriteError]"
    by (simp_all add: x w7)
  have "main e url fn w = (None, print MsgProgramDone w8)"
    by (simp add: run x)
  then show ?thesis
    by (simp add: print_fields w8)
qed

text \<open>
  The theorem on a run over two municipalities whose destination cannot be written.
\<close>

theorem write_failure_then_program_done_witness:
  "request env_read_only (requested world0) ''u/'' = Some listing0 \<and>
   fst (scrape_municipalities_list env_read_only listing0 ''u/'' world0) =
     Inr [stub_alfa, stub_beta] \<and>
   final_dataframe [stub_alfa, record_beta] = Inr table1 \<and>
   to_csv env_read_only ''/out.csv'' table1 = Some IOError \<and>
   fst (main env_read_only ''u/'' ''/out.csv'' world0) = None \<and>
   to_csv_calls (snd (main env_read_only ''u/'' ''/out.csv'' world0)) =
     [(''/out.csv'', table1)] \<and>
   saved (snd (main env_read_only ''u/'' ''/out.csv'' world0)) = [] \<and>
   (\<exists>out. stdout (snd (main env_read_only ''u/'' ''/out.csv'' world0)) =
      out @ [MsgExporting ''/out.csv'', MsgWriteError, MsgProgramDone])"
proof -
  let ?ms = "[stub_alfa, stub_beta]"
  have ms': "[stub_alfa, record_beta] =
      map (\<lambda>j. merged (?ms ! j) (response env_read_only (requested world0 @ [''u/'']) ?ms j))
        [0..<length ?ms]"
    by (simp only: run1_facts(3) merged1)
  have fail: "to_csv env_read_only ''/out.csv'' table1 = Some IOError"
    by (simp add: env_read_only_def)
  from write_failure_then_program_done [OF run1_facts(2) stubs1(2) _ ms' df1 fail]
  show ?thesis
    by (simp add: stubs1 run1_normal df1)
qed

end
